theory Spec2Isabelle
  imports Complex_Main
begin

section \<open>Data model of honeybee/face.py\<close>

text \<open>
  The Face class of honeybee/face.py is glue code over the ladybug_geometry library.
  Geometry objects (Face3D) are values of a type parameter \<open>'g\<close>; every call into
  ladybug_geometry is a field of a record of library operations that the embedded
  functions take as their first argument. Numbers are reals.

  A method that mutates the Face returns an outcome: the value returned together with
  the Face as the method left it, or the exception raised together with the Face as it
  was at the raise.
\<close>

datatype error = AssertionError | ValueError | IndexError

datatype ('a, 's) outcome = Return 'a 's | Raise error 's

datatype face_type = Wall | Floor | RoofCeiling | AirBoundary

text \<open>
  Boundary conditions (honeybee/boundarycondition.py): Outdoors, Ground, Surface with its
  tuple \<open>boundary_condition_objects\<close> and its \<open>sub_face\<close> flag, and the conditions
  that extensions register (Adiabatic is one of them), kept by name.
\<close>

datatype boundary_condition =
    Outdoors
  | Ground
  | Surface (boundary_condition_objects: "string list") (sub_face_flag: bool)
  | Extension string

type_synonym point3 = "real \<times> real \<times> real"

record 'g aperture =
  ap_identifier :: string
  ap_display_name :: string
  ap_geometry :: 'g
  ap_parent :: "string option"
  ap_boundary_condition :: boundary_condition
  ap_is_operable :: bool

record 'g door =
  dr_identifier :: string
  dr_display_name :: string
  dr_geometry :: 'g
  dr_parent :: "string option"
  dr_boundary_condition :: boundary_condition
  dr_is_glass :: bool

datatype 'g sub_face = Ap "'g aperture" | Dr "'g door"

text \<open>
  The slots of Face: \<open>_geometry\<close>, \<open>_parent\<close> (the identifier of the parent Room),
  \<open>_punched_geometry\<close> (the cache; None when it has to be recomputed), \<open>_apertures\<close>,
  \<open>_doors\<close>, \<open>_type\<close>, \<open>_boundary_condition\<close>, with the identifier and display name
  of the base class. A sub-face's \<open>_parent\<close> holds the identifier of the Face it was
  added to. Shades and extension properties are not modelled.
\<close>

record 'g face =
  face_identifier :: string
  display_name :: string
  geometry :: 'g
  parent :: "string option"
  cached_punched_geometry :: "'g option"
  apertures :: "'g aperture list"
  doors :: "'g door list"
  ftype :: face_type
  boundary_condition :: boundary_condition

text \<open>
  The operations of ladybug_geometry's Face3D that the basic Face methods call:
  \<open>a.normal.angle(b.normal)\<close>, \<open>flip\<close>, \<open>Face3D.from_punched_geometry\<close>, \<open>center\<close>,
  \<open>area\<close>, \<open>remove_colinear_vertices\<close> (None when it raises AssertionError on a
  degenerate geometry) and \<open>polygon2d.is_rectangle\<close>.
\<close>

record 'g face3d_ops =
  g_normal_angle :: "'g \<Rightarrow> 'g \<Rightarrow> real"
  g_flip :: "'g \<Rightarrow> 'g"
  g_from_punched_geometry :: "'g \<Rightarrow> 'g list \<Rightarrow> 'g"
  g_center :: "'g \<Rightarrow> point3"
  g_area :: "'g \<Rightarrow> real"
  g_remove_colinear_vertices :: "'g \<Rightarrow> real \<Rightarrow> 'g option"
  g_is_rectangle :: "'g \<Rightarrow> real \<Rightarrow> bool"

section \<open>Properties and sub-face editing\<close>

definition sub_faces :: "'g face \<Rightarrow> 'g sub_face list" where
  "sub_faces f = map Ap (apertures f) @ map Dr (doors f)"

definition has_sub_faces :: "'g face \<Rightarrow> bool" where
  "has_sub_faces f = (\<not> (apertures f = [] \<and> doors f = []))"

definition sub_face_geometry :: "'g sub_face \<Rightarrow> 'g" where
  "sub_face_geometry s = (case s of Ap a \<Rightarrow> ap_geometry a | Dr d \<Rightarrow> dr_geometry d)"

text \<open>What the property \<open>punched_geometry\<close> computes when the cache is empty.\<close>

definition compute_punched_geometry :: "'g face3d_ops \<Rightarrow> 'g face \<Rightarrow> 'g" where
  "compute_punched_geometry L f =
     (let subs = map ap_geometry (apertures f) @ map dr_geometry (doors f)
      in if length subs \<noteq> 0 then g_from_punched_geometry L (geometry f) subs
         else geometry f)"

text \<open>The property \<open>punched_geometry\<close>: the value read and the Face with its cache filled.\<close>

definition punched_geometry :: "'g face3d_ops \<Rightarrow> 'g face \<Rightarrow> 'g \<times> 'g face" where
  "punched_geometry L f =
     (case cached_punched_geometry f of
        Some g \<Rightarrow> (g, f)
      | None \<Rightarrow>
          (let g = compute_punched_geometry L f
           in (g, f\<lparr>cached_punched_geometry := Some g\<rparr>)))"

text \<open>The setter of \<open>boundary_condition\<close>. Every value of the datatype is a boundary condition.\<close>

definition is_outdoors_or_surface :: "boundary_condition \<Rightarrow> bool" where
  "is_outdoors_or_surface bc =
     (case bc of Outdoors \<Rightarrow> True | Surface objs sf \<Rightarrow> True | _ \<Rightarrow> False)"

definition set_boundary_condition ::
  "boundary_condition \<Rightarrow> 'g face \<Rightarrow> (unit, 'g face) outcome" where
  "set_boundary_condition v f =
     (if (apertures f \<noteq> [] \<or> doors f \<noteq> []) \<and> \<not> is_outdoors_or_surface v
      then Raise AssertionError f
      else Return () (f\<lparr>boundary_condition := v\<rparr>))"

text \<open>
  The setter of \<open>type\<close>. The assertion of the source is
  \<open>self._apertures == [] or self._doors == []\<close>.
\<close>

definition set_type :: "face_type \<Rightarrow> 'g face \<Rightarrow> (unit, 'g face) outcome" where
  "set_type v f =
     (if v = AirBoundary \<and> \<not> (apertures f = [] \<or> doors f = [])
      then Raise AssertionError f
      else Return () (f\<lparr>ftype := v\<rparr>))"

text \<open>
  \<open>remove_apertures\<close>, \<open>remove_doors\<close>, \<open>remove_sub_faces\<close>. The objects that leave the
  Face stay alive for whoever holds them, so each function also returns them, in the
  state the method left them. The loop of \<open>remove_doors\<close> runs over \<open>self._apertures\<close>,
  as the source has it.
\<close>

definition remove_apertures :: "'g face \<Rightarrow> 'g face \<times> 'g aperture list" where
  "remove_apertures f =
     (f\<lparr>apertures := [], cached_punched_geometry := None\<rparr>,
      map (\<lambda>a. a\<lparr>ap_parent := None\<rparr>) (apertures f))"

definition remove_doors :: "'g face \<Rightarrow> 'g face \<times> 'g door list" where
  "remove_doors f =
     (f\<lparr>apertures := map (\<lambda>a. a\<lparr>ap_parent := None\<rparr>) (apertures f),
        doors := [], cached_punched_geometry := None\<rparr>,
      doors f)"

definition remove_sub_faces ::
  "'g face \<Rightarrow> 'g face \<times> 'g aperture list \<times> 'g door list" where
  "remove_sub_faces f =
     (let (f1, aps) = remove_apertures f;
          (f2, drs) = remove_doors f1
      in (f2, aps, drs))"

text \<open>\<open>_acceptable_sub_face_check\<close>: None when both assertions hold.\<close>

definition acceptable_sub_face_check :: "'g face \<Rightarrow> error option" where
  "acceptable_sub_face_check f =
     (if boundary_condition f \<noteq> Outdoors then Some AssertionError
      else if ftype f = AirBoundary then Some AssertionError
      else None)"

definition add_aperture ::
  "'g face3d_ops \<Rightarrow> 'g aperture \<Rightarrow> 'g face \<Rightarrow> (unit, 'g face) outcome" where
  "add_aperture L aperture f =
     (case acceptable_sub_face_check f of
        Some e \<Rightarrow> Raise e f
      | None \<Rightarrow>
          (let a1 = aperture\<lparr>ap_parent := Some (face_identifier f)\<rparr>;
               a2 = (if g_normal_angle L (geometry f) (ap_geometry a1) > pi / 2
                     then a1\<lparr>ap_geometry := g_flip L (ap_geometry a1)\<rparr> else a1)
           in Return () (f\<lparr>apertures := apertures f @ [a2],
                           cached_punched_geometry := None\<rparr>)))"

definition add_door ::
  "'g face3d_ops \<Rightarrow> 'g door \<Rightarrow> 'g face \<Rightarrow> (unit, 'g face) outcome" where
  "add_door L door f =
     (case acceptable_sub_face_check f of
        Some e \<Rightarrow> Raise e f
      | None \<Rightarrow>
          (let d1 = door\<lparr>dr_parent := Some (face_identifier f)\<rparr>;
               d2 = (if g_normal_angle L (geometry f) (dr_geometry d1) > pi / 2
                     then d1\<lparr>dr_geometry := g_flip L (dr_geometry d1)\<rparr> else d1)
           in Return () (f\<lparr>doors := doors f @ [d2],
                           cached_punched_geometry := None\<rparr>)))"

text \<open>The Aperture and the Door as \<open>add_aperture\<close> and \<open>add_door\<close> append them.\<close>

definition attached_aperture :: "'g face3d_ops \<Rightarrow> 'g face \<Rightarrow> 'g aperture \<Rightarrow> 'g aperture" where
  "attached_aperture L f aperture =
     (let a1 = aperture\<lparr>ap_parent := Some (face_identifier f)\<rparr>
      in if g_normal_angle L (geometry f) (ap_geometry a1) > pi / 2
         then a1\<lparr>ap_geometry := g_flip L (ap_geometry a1)\<rparr> else a1)"

definition attached_door :: "'g face3d_ops \<Rightarrow> 'g face \<Rightarrow> 'g door \<Rightarrow> 'g door" where
  "attached_door L f door =
     (let d1 = door\<lparr>dr_parent := Some (face_identifier f)\<rparr>
      in if g_normal_angle L (geometry f) (dr_geometry d1) > pi / 2
         then d1\<lparr>dr_geometry := g_flip L (dr_geometry d1)\<rparr> else d1)"

definition add_sub_face ::
  "'g face3d_ops \<Rightarrow> 'g sub_face \<Rightarrow> 'g face \<Rightarrow> (unit, 'g face) outcome" where
  "add_sub_face L s f = (case s of Ap a \<Rightarrow> add_aperture L a f | Dr d \<Rightarrow> add_door L d f)"

fun add_apertures ::
  "'g face3d_ops \<Rightarrow> 'g aperture list \<Rightarrow> 'g face \<Rightarrow> (unit, 'g face) outcome" where
  "add_apertures L [] f = Return () f"
| "add_apertures L (a # as) f =
     (case add_aperture L a f of
        Raise e f' \<Rightarrow> Raise e f'
      | Return u f' \<Rightarrow> add_apertures L as f')"

fun add_doors ::
  "'g face3d_ops \<Rightarrow> 'g door list \<Rightarrow> 'g face \<Rightarrow> (unit, 'g face) outcome" where
  "add_doors L [] f = Return () f"
| "add_doors L (d # ds) f =
     (case add_door L d f of
        Raise e f' \<Rightarrow> Raise e f'
      | Return u f' \<Rightarrow> add_doors L ds f')"

fun add_sub_faces ::
  "'g face3d_ops \<Rightarrow> 'g sub_face list \<Rightarrow> 'g face \<Rightarrow> (unit, 'g face) outcome" where
  "add_sub_faces L [] f = Return () f"
| "add_sub_faces L (s # ss) f =
     (case add_sub_face L s f of
        Raise e f' \<Rightarrow> Raise e f'
      | Return u f' \<Rightarrow> add_sub_faces L ss f')"

definition replace_apertures ::
  "'g face3d_ops \<Rightarrow> 'g aperture list \<Rightarrow> 'g face \<Rightarrow> (unit, 'g face) outcome" where
  "replace_apertures L aps f = add_apertures L aps (fst (remove_sub_faces f))"

section \<open>Adjacency\<close>

text \<open>
  \<open>Point3D.distance_to_point\<close> of ladybug_geometry: the Euclidean distance.
\<close>

definition distance_to_point :: "point3 \<Rightarrow> point3 \<Rightarrow> real" where
  "distance_to_point p q =
     (case p of (x1, y1, z1) \<Rightarrow> case q of (x2, y2, z2) \<Rightarrow>
        sqrt ((x1 - x2)\<^sup>2 + (y1 - y2)\<^sup>2 + (z1 - z2)\<^sup>2))"

text \<open>
  Modelled from the spec: \<open>boundary_conditions.surface\<close> of honeybee/boundarycondition.py,
  which is not among the sources. The Surface condition references the other object by
  its identifier, followed by the identifier of its parent when it has one; the flag
  says whether the object is a sub-face.
\<close>

definition surface :: "'g face \<Rightarrow> boundary_condition" where
  "surface other =
     Surface (face_identifier other # (case parent other of None \<Rightarrow> [] | Some r \<Rightarrow> [r])) False"

definition surface_aperture :: "'g aperture \<Rightarrow> boundary_condition" where
  "surface_aperture a =
     Surface (ap_identifier a # (case ap_parent a of None \<Rightarrow> [] | Some r \<Rightarrow> [r])) True"

definition surface_door :: "'g door \<Rightarrow> boundary_condition" where
  "surface_door d =
     Surface (dr_identifier d # (case dr_parent d of None \<Rightarrow> [] | Some r \<Rightarrow> [r])) True"

text \<open>
  Modelled from the spec: \<open>Aperture.set_adjacency\<close> and \<open>Door.set_adjacency\<close> of
  honeybee/aperture.py and honeybee/door.py, which are not among the sources. Pairing
  two sub-faces links each to the other by identifier reference.
\<close>

definition aperture_set_adjacency ::
  "'g aperture \<Rightarrow> 'g aperture \<Rightarrow> 'g aperture \<times> 'g aperture" where
  "aperture_set_adjacency a b =
     (a\<lparr>ap_boundary_condition := surface_aperture b\<rparr>,
      b\<lparr>ap_boundary_condition := surface_aperture a\<rparr>)"

definition door_set_adjacency :: "'g door \<Rightarrow> 'g door \<Rightarrow> 'g door \<times> 'g door" where
  "door_set_adjacency a b =
     (a\<lparr>dr_boundary_condition := surface_door b\<rparr>,
      b\<lparr>dr_boundary_condition := surface_door a\<rparr>)"

text \<open>
  The inner loop of \<open>set_adjacency\<close>: the position of the first sub-face of the other
  Face whose center is within the tolerance of the point, None when the loop ends
  without a break. The argument is the list of the centers of the other Face's sub-faces.
\<close>

fun first_adjacent :: "real \<Rightarrow> point3 \<Rightarrow> point3 list \<Rightarrow> nat option" where
  "first_adjacent tolerance p [] = None"
| "first_adjacent tolerance p (c # cs) =
     (if distance_to_point p c \<le> tolerance then Some 0
      else map_option Suc (first_adjacent tolerance p cs))"

text \<open>
  The outer loop over \<open>self._apertures\<close>: the apertures of this Face and of the other
  Face after the loop, and the pairs appended to \<open>adj_info\<close>. A pair holds the positions
  of the two objects in \<open>self._apertures\<close> and \<open>other_face._apertures\<close>;
  \<open>found_adjacencies\<close> is the number of pairs.
\<close>

fun pair_apertures ::
  "'g face3d_ops \<Rightarrow> real \<Rightarrow> nat \<Rightarrow> 'g aperture list \<Rightarrow> 'g aperture list \<Rightarrow>
     'g aperture list \<times> 'g aperture list \<times> (nat \<times> nat) list" where
  "pair_apertures L tolerance i [] others = ([], others, [])"
| "pair_apertures L tolerance i (aper_1 # rest) others =
     (case first_adjacent tolerance (g_center L (ap_geometry aper_1))
             (map (\<lambda>b. g_center L (ap_geometry b)) others) of
        None \<Rightarrow>
          (case pair_apertures L tolerance (Suc i) rest others of
             (rest', others', pairs) \<Rightarrow> (aper_1 # rest', others', pairs))
      | Some j \<Rightarrow>
          (case aperture_set_adjacency aper_1 (others ! j) of
             (a1, a2) \<Rightarrow>
               (case pair_apertures L tolerance (Suc i) rest (others[j := a2]) of
                  (rest', others', pairs) \<Rightarrow> (a1 # rest', others', (i, j) # pairs))))"

fun pair_doors ::
  "'g face3d_ops \<Rightarrow> real \<Rightarrow> nat \<Rightarrow> 'g door list \<Rightarrow> 'g door list \<Rightarrow>
     'g door list \<times> 'g door list \<times> (nat \<times> nat) list" where
  "pair_doors L tolerance i [] others = ([], others, [])"
| "pair_doors L tolerance i (door_1 # rest) others =
     (case first_adjacent tolerance (g_center L (dr_geometry door_1))
             (map (\<lambda>b. g_center L (dr_geometry b)) others) of
        None \<Rightarrow>
          (case pair_doors L tolerance (Suc i) rest others of
             (rest', others', pairs) \<Rightarrow> (door_1 # rest', others', pairs))
      | Some j \<Rightarrow>
          (case door_set_adjacency door_1 (others ! j) of
             (d1, d2) \<Rightarrow>
               (case pair_doors L tolerance (Suc i) rest (others[j := d2]) of
                  (rest', others', pairs) \<Rightarrow> (d1 # rest', others', (i, j) # pairs))))"

record adjacency_info =
  adjacent_apertures :: "(nat \<times> nat) list"
  adjacent_doors :: "(nat \<times> nat) list"

text \<open>The two pairing blocks of \<open>set_adjacency\<close>, each behind its \<open>len(...) > 0\<close> test.\<close>

definition match_apertures ::
  "'g face3d_ops \<Rightarrow> real \<Rightarrow> 'g aperture list \<Rightarrow> 'g aperture list \<Rightarrow>
     'g aperture list \<times> 'g aperture list \<times> (nat \<times> nat) list" where
  "match_apertures L tolerance mine others =
     (if length mine > 0 then pair_apertures L tolerance 0 mine others else (mine, others, []))"

definition match_doors ::
  "'g face3d_ops \<Rightarrow> real \<Rightarrow> 'g door list \<Rightarrow> 'g door list \<Rightarrow>
     'g door list \<times> 'g door list \<times> (nat \<times> nat) list" where
  "match_doors L tolerance mine others =
     (if length mine > 0 then pair_doors L tolerance 0 mine others else (mine, others, []))"

text \<open>
  \<open>set_adjacency\<close> on two distinct Face objects. The state is the pair of this Face and
  the other Face. The two boundary conditions are assigned first; the four checks follow
  in the order of the source.
\<close>

definition set_adjacency ::
  "'g face3d_ops \<Rightarrow> real \<Rightarrow> 'g face \<Rightarrow> 'g face \<Rightarrow>
     (adjacency_info, 'g face \<times> 'g face) outcome" where
  "set_adjacency L tolerance self other_face =
     (let s1 = self\<lparr>boundary_condition := surface other_face\<rparr>;
          o1 = other_face\<lparr>boundary_condition := surface self\<rparr>
      in if length (apertures s1) \<noteq> length (apertures o1) then Raise AssertionError (s1, o1)
         else
           (case match_apertures L tolerance (apertures s1) (apertures o1) of
              (aps1, aps2, ap_pairs) \<Rightarrow>
                (let s2 = s1\<lparr>apertures := aps1\<rparr>; o2 = o1\<lparr>apertures := aps2\<rparr>
                 in if length (apertures s1) > 0 \<and> length (apertures s1) \<noteq> length ap_pairs
                    then Raise AssertionError (s2, o2)
                    else if length (doors s2) \<noteq> length (doors o2)
                    then Raise AssertionError (s2, o2)
                    else
                      (case match_doors L tolerance (doors s2) (doors o2) of
                         (drs1, drs2, dr_pairs) \<Rightarrow>
                           (let s3 = s2\<lparr>doors := drs1\<rparr>; o3 = o2\<lparr>doors := drs2\<rparr>
                            in if length (doors s2) > 0 \<and> length (doors s2) \<noteq> length dr_pairs
                               then Raise AssertionError (s3, o3)
                               else Return \<lparr>adjacent_apertures = ap_pairs,
                                            adjacent_doors = dr_pairs\<rparr> (s3, o3))))))"

text \<open>
  The condition under which \<open>set_adjacency\<close> gets through its four checks: the counts
  agree and every aperture and door of this Face has a sub-face of the same kind on the
  other Face whose center is within the tolerance.
\<close>

definition all_matched :: "'g face3d_ops \<Rightarrow> real \<Rightarrow> 'g face \<Rightarrow> 'g face \<Rightarrow> bool" where
  "all_matched L tol self other =
     (length (apertures self) = length (apertures other) \<and>
      length (doors self) = length (doors other) \<and>
      list_all (\<lambda>a. list_ex (\<lambda>b. distance_to_point (g_center L (ap_geometry a))
                                    (g_center L (ap_geometry b)) \<le> tol) (apertures other))
               (apertures self) \<and>
      list_all (\<lambda>a. list_ex (\<lambda>b. distance_to_point (g_center L (dr_geometry a))
                                    (g_center L (dr_geometry b)) \<le> tol) (doors other))
               (doors self))"

section \<open>Outcomes, constructors and identifiers\<close>

fun outcome_state :: "('a, 's) outcome \<Rightarrow> 's" where
  "outcome_state (Return v s) = s"
| "outcome_state (Raise e s) = s"

fun returned :: "('a, 's) outcome \<Rightarrow> bool" where
  "returned (Return v s) = True"
| "returned (Raise e s) = False"

text \<open>\<open>str(i)\<close> of a non-negative integer, for the identifiers built with \<open>format\<close>.\<close>

fun str_nat :: "nat \<Rightarrow> string" where
  "str_nat n =
     (if n < 10 then [''0123456789'' ! n]
      else str_nat (n div 10) @ [''0123456789'' ! (n mod 10)])"

declare str_nat.simps [simp del]

text \<open>
  Modelled from the spec: the constructors \<open>Aperture(identifier, geometry, is_operable)\<close>
  and \<open>Door(identifier, geometry)\<close> of honeybee/aperture.py and honeybee/door.py, which
  are not among the sources. A new sub-face has no parent, an Outdoors boundary condition
  and its identifier as display name.
\<close>

definition new_aperture :: "string \<Rightarrow> 'g \<Rightarrow> bool \<Rightarrow> 'g aperture" where
  "new_aperture ident geo operable =
     \<lparr>ap_identifier = ident, ap_display_name = ident, ap_geometry = geo, ap_parent = None,
      ap_boundary_condition = Outdoors, ap_is_operable = operable\<rparr>"

definition new_door :: "string \<Rightarrow> 'g \<Rightarrow> 'g door" where
  "new_door ident geo =
     \<lparr>dr_identifier = ident, dr_display_name = ident, dr_geometry = geo, dr_parent = None,
      dr_boundary_condition = Outdoors, dr_is_glass = False\<rparr>"

text \<open>
  \<open>Face.__init__\<close>. The two defaults, \<open>get_type_from_normal\<close> and
  \<open>get_bc_from_position\<close>, live in honeybee/facetype.py and
  honeybee/boundarycondition.py and are arguments here. The setter of
  \<open>boundary_condition\<close> accepts every value, since the new Face has no sub-faces.
\<close>

definition face_init ::
  "('g \<Rightarrow> face_type) \<Rightarrow> ('g \<Rightarrow> boundary_condition) \<Rightarrow> string \<Rightarrow> 'g \<Rightarrow>
     face_type option \<Rightarrow> boundary_condition option \<Rightarrow> 'g face" where
  "face_init get_type_from_normal get_bc_from_position ident geo ty bc =
     \<lparr>face_identifier = ident, display_name = ident, geometry = geo, parent = None,
      cached_punched_geometry = None, apertures = [], doors = [],
      ftype = (case ty of Some t \<Rightarrow> t | None \<Rightarrow> get_type_from_normal geo),
      boundary_condition = (case bc of Some b \<Rightarrow> b | None \<Rightarrow> get_bc_from_position geo)\<rparr>"

section \<open>Transforms and clean-up\<close>

text \<open>
  The transforms of ladybug_geometry's Face3D: \<open>move\<close>, \<open>rotate\<close> (axis, angle in
  radians, origin), \<open>rotate_xy\<close>, \<open>reflect\<close> (normal and origin of the plane) and
  \<open>scale\<close> (factor, optional origin).
\<close>

record 'g transform_ops =
  g_move :: "'g \<Rightarrow> point3 \<Rightarrow> 'g"
  g_rotate :: "'g \<Rightarrow> point3 \<Rightarrow> real \<Rightarrow> point3 \<Rightarrow> 'g"
  g_rotate_xy :: "'g \<Rightarrow> real \<Rightarrow> point3 \<Rightarrow> 'g"
  g_reflect :: "'g \<Rightarrow> point3 \<Rightarrow> point3 \<Rightarrow> 'g"
  g_scale :: "'g \<Rightarrow> real \<Rightarrow> point3 option \<Rightarrow> 'g"

definition radians :: "real \<Rightarrow> real" where
  "radians deg = deg * pi / 180"

text \<open>
  Modelled from the spec: the transforms of Aperture and Door (honeybee/aperture.py and
  honeybee/door.py are not among the sources) apply the same transform to the geometry
  of the sub-face. \<open>transform_sub_faces\<close> is the pair of loops over \<open>self._apertures\<close>
  and \<open>self._doors\<close> that every transform of Face runs.
\<close>

definition transform_sub_faces :: "('g \<Rightarrow> 'g) \<Rightarrow> 'g face \<Rightarrow> 'g face" where
  "transform_sub_faces t f =
     f\<lparr>apertures := map (\<lambda>a. a\<lparr>ap_geometry := t (ap_geometry a)\<rparr>) (apertures f),
       doors := map (\<lambda>d. d\<lparr>dr_geometry := t (dr_geometry d)\<rparr>) (doors f)\<rparr>"

definition move :: "'g transform_ops \<Rightarrow> point3 \<Rightarrow> 'g face \<Rightarrow> 'g face" where
  "move T moving_vec f =
     (transform_sub_faces (\<lambda>g. g_move T g moving_vec)
        (f\<lparr>geometry := g_move T (geometry f) moving_vec\<rparr>))
     \<lparr>cached_punched_geometry := None\<rparr>"

definition rotate :: "'g transform_ops \<Rightarrow> point3 \<Rightarrow> real \<Rightarrow> point3 \<Rightarrow> 'g face \<Rightarrow> 'g face" where
  "rotate T axis angle origin f =
     (transform_sub_faces (\<lambda>g. g_rotate T g axis (radians angle) origin)
        (f\<lparr>geometry := g_rotate T (geometry f) axis (radians angle) origin\<rparr>))
     \<lparr>cached_punched_geometry := None\<rparr>"

definition rotate_xy :: "'g transform_ops \<Rightarrow> real \<Rightarrow> point3 \<Rightarrow> 'g face \<Rightarrow> 'g face" where
  "rotate_xy T angle origin f =
     (transform_sub_faces (\<lambda>g. g_rotate_xy T g (radians angle) origin)
        (f\<lparr>geometry := g_rotate_xy T (geometry f) (radians angle) origin\<rparr>))
     \<lparr>cached_punched_geometry := None\<rparr>"

definition reflect :: "'g transform_ops \<Rightarrow> point3 \<times> point3 \<Rightarrow> 'g face \<Rightarrow> 'g face" where
  "reflect T plane f =
     (case plane of (normal, origin) \<Rightarrow>
        (transform_sub_faces (\<lambda>g. g_reflect T g normal origin)
           (f\<lparr>geometry := g_reflect T (geometry f) normal origin\<rparr>))
        \<lparr>cached_punched_geometry := None\<rparr>)"

definition scale :: "'g transform_ops \<Rightarrow> real \<Rightarrow> point3 option \<Rightarrow> 'g face \<Rightarrow> 'g face" where
  "scale T factor origin f =
     (transform_sub_faces (\<lambda>g. g_scale T g factor origin)
        (f\<lparr>geometry := g_scale T (geometry f) factor origin\<rparr>))
     \<lparr>cached_punched_geometry := None\<rparr>"

definition remove_colinear_vertices ::
  "'g face3d_ops \<Rightarrow> real \<Rightarrow> 'g face \<Rightarrow> (unit, 'g face) outcome" where
  "remove_colinear_vertices L tolerance f =
     (case g_remove_colinear_vertices L (geometry f) tolerance of
        None \<Rightarrow> Raise ValueError f
      | Some g \<Rightarrow> Return () (f\<lparr>geometry := g, cached_punched_geometry := None\<rparr>))"

text \<open>
  \<open>remove_degenerate_sub_faces\<close>. Modelled from the spec: \<open>remove_colinear_vertices\<close> of
  Aperture and Door (not among the sources) replaces the geometry of the sub-face by the
  cleaned one and raises ValueError on a degenerate geometry, as the method of Face
  does. The sub-faces that raise are popped; the others keep their cleaned geometry.
  The method does not touch \<open>_punched_geometry\<close>.
\<close>

definition remove_degenerate_sub_faces :: "'g face3d_ops \<Rightarrow> real \<Rightarrow> 'g face \<Rightarrow> 'g face" where
  "remove_degenerate_sub_faces L tolerance f =
     f\<lparr>apertures :=
          List.map_filter
            (\<lambda>a. map_option (\<lambda>g. a\<lparr>ap_geometry := g\<rparr>)
                    (g_remove_colinear_vertices L (ap_geometry a) tolerance))
            (apertures f),
       doors :=
          List.map_filter
            (\<lambda>d. map_option (\<lambda>g. d\<lparr>dr_geometry := g\<rparr>)
                    (g_remove_colinear_vertices L (dr_geometry d) tolerance))
            (doors f)\<rparr>"

section \<open>Aperture generators\<close>

text \<open>
  The generators of ladybug_geometry's Face3D: \<open>sub_faces_by_ratio_rectangle\<close>,
  \<open>sub_faces_by_ratio\<close>, \<open>sub_faces_by_ratio_sub_rectangle\<close>,
  \<open>sub_faces_by_ratio_gridded\<close> and \<open>sub_faces_by_dimension_rectangle\<close>; and
  \<open>g_centered_rectangle\<close>, the rectangle of the given width, height and sill height
  that \<open>aperture_by_width_height\<close> builds in the plane of the Face (lines 1428 to 1440).
\<close>

record 'g generator_ops =
  g_sub_faces_by_ratio_rectangle :: "'g \<Rightarrow> real \<Rightarrow> real \<Rightarrow> 'g list"
  g_sub_faces_by_ratio :: "'g \<Rightarrow> real \<Rightarrow> 'g list"
  g_sub_faces_by_ratio_sub_rectangle ::
    "'g \<Rightarrow> real \<Rightarrow> real \<Rightarrow> real \<Rightarrow> real \<Rightarrow> real \<Rightarrow> real \<Rightarrow> 'g list"
  g_sub_faces_by_ratio_gridded :: "'g \<Rightarrow> real \<Rightarrow> real \<Rightarrow> real option \<Rightarrow> 'g list"
  g_sub_faces_by_dimension_rectangle ::
    "'g \<Rightarrow> real \<Rightarrow> real \<Rightarrow> real \<Rightarrow> real \<Rightarrow> real \<Rightarrow> 'g list"
  g_centered_rectangle :: "'g \<Rightarrow> real \<Rightarrow> real \<Rightarrow> real \<Rightarrow> 'g"

text \<open>
  The loop that ends every generator: one new Aperture per generated geometry, named
  \<open><identifier>_Glz<i>\<close>, added with \<open>add_aperture\<close>.
\<close>

fun add_glz_apertures ::
  "'g face3d_ops \<Rightarrow> nat \<Rightarrow> 'g list \<Rightarrow> 'g face \<Rightarrow> (unit, 'g face) outcome" where
  "add_glz_apertures L i [] f = Return () f"
| "add_glz_apertures L i (ap_face # rest) f =
     (case add_aperture L
             (new_aperture (face_identifier f @ ''_Glz'' @ str_nat i) ap_face False) f of
        Raise e f' \<Rightarrow> Raise e f'
      | Return u f' \<Rightarrow> add_glz_apertures L (Suc i) rest f')"

text \<open>
  The apertures that the loop adds to a Face that accepts sub-faces: number \<open>j\<close> is a
  new Aperture named \<open><identifier>_Glz<j>\<close>, attached to the Face.
\<close>

definition glz_apertures :: "'g face3d_ops \<Rightarrow> 'g face \<Rightarrow> nat \<Rightarrow> 'g list \<Rightarrow> 'g aperture list" where
  "glz_apertures L f i gens =
     map (\<lambda>(j, g). attached_aperture L f
                      (new_aperture (face_identifier f @ ''_Glz'' @ str_nat j) g False))
       (enumerate i gens)"

definition apertures_by_ratio ::
  "'g face3d_ops \<Rightarrow> 'g generator_ops \<Rightarrow> real \<Rightarrow> real \<Rightarrow> bool \<Rightarrow> 'g face \<Rightarrow>
     (unit, 'g face) outcome" where
  "apertures_by_ratio L G ratio tolerance rect_split f =
     (if \<not> (0 \<le> ratio \<and> ratio < 1) then Raise AssertionError f
      else case acceptable_sub_face_check f of
        Some e \<Rightarrow> Raise e f
      | None \<Rightarrow>
          (let f1 = fst (remove_sub_faces f)
           in if ratio = 0 then Return () f1
              else case g_remove_colinear_vertices L (geometry f1) tolerance of
                None \<Rightarrow> Return () f1
              | Some geo \<Rightarrow>
                  add_glz_apertures L 0
                    (if rect_split then g_sub_faces_by_ratio_rectangle G geo ratio tolerance
                     else g_sub_faces_by_ratio G geo ratio) f1))"

definition apertures_by_ratio_rectangle ::
  "'g face3d_ops \<Rightarrow> 'g generator_ops \<Rightarrow> real \<Rightarrow> real \<Rightarrow> real \<Rightarrow> real \<Rightarrow> real \<Rightarrow> real \<Rightarrow>
     'g face \<Rightarrow> (unit, 'g face) outcome" where
  "apertures_by_ratio_rectangle L G ratio aperture_height sill_height horizontal_separation
       vertical_separation tolerance f =
     (if \<not> (0 \<le> ratio \<and> ratio \<le> 95 / 100) then Raise AssertionError f
      else case acceptable_sub_face_check f of
        Some e \<Rightarrow> Raise e f
      | None \<Rightarrow>
          (let f1 = fst (remove_sub_faces f)
           in if ratio = 0 then Return () f1
              else case g_remove_colinear_vertices L (geometry f1) tolerance of
                None \<Rightarrow> Return () f1
              | Some geo \<Rightarrow>
                  add_glz_apertures L 0
                    (g_sub_faces_by_ratio_sub_rectangle G geo ratio aperture_height sill_height
                       horizontal_separation vertical_separation tolerance) f1))"

definition apertures_by_ratio_gridded ::
  "'g face3d_ops \<Rightarrow> 'g generator_ops \<Rightarrow> real \<Rightarrow> real \<Rightarrow> real option \<Rightarrow> real \<Rightarrow>
     'g face \<Rightarrow> (unit, 'g face) outcome" where
  "apertures_by_ratio_gridded L G ratio x_dim y_dim tolerance f =
     (if \<not> (0 \<le> ratio \<and> ratio < 1) then Raise AssertionError f
      else case acceptable_sub_face_check f of
        Some e \<Rightarrow> Raise e f
      | None \<Rightarrow>
          (let f1 = fst (remove_sub_faces f)
           in if ratio = 0 then Return () f1
              else case g_remove_colinear_vertices L (geometry f1) tolerance of
                None \<Rightarrow> Return () f1
              | Some geo \<Rightarrow>
                  add_glz_apertures L 0 (g_sub_faces_by_ratio_gridded G geo ratio x_dim y_dim) f1))"

definition apertures_by_width_height_rectangle ::
  "'g face3d_ops \<Rightarrow> 'g generator_ops \<Rightarrow> real \<Rightarrow> real \<Rightarrow> real \<Rightarrow> real \<Rightarrow> real \<Rightarrow>
     'g face \<Rightarrow> (unit, 'g face) outcome" where
  "apertures_by_width_height_rectangle L G aperture_height aperture_width sill_height
       horizontal_separation tolerance f =
     (if \<not> horizontal_separation > 0 then Raise AssertionError f
      else if aperture_height \<le> 0 \<or> aperture_width \<le> 0 then Return () f
      else case acceptable_sub_face_check f of
        Some e \<Rightarrow> Raise e f
      | None \<Rightarrow>
          (let f1 = fst (remove_sub_faces f)
           in case g_remove_colinear_vertices L (geometry f1) tolerance of
                None \<Rightarrow> Return () f1
              | Some geo \<Rightarrow>
                  add_glz_apertures L 0
                    (g_sub_faces_by_dimension_rectangle G geo aperture_height aperture_width
                       sill_height horizontal_separation tolerance) f1))"

text \<open>The property \<open>aperture_area\<close>.\<close>

definition aperture_area :: "'g face3d_ops \<Rightarrow> 'g face \<Rightarrow> real" where
  "aperture_area L f = sum_list (map (\<lambda>ap. g_area L (ap_geometry ap)) (apertures f))"

text \<open>
  \<open>aperture_by_width_height\<close>: the value returned is the new Aperture, None when the
  width or the height is not positive. An empty identifier counts as no identifier.
\<close>

definition aperture_by_width_height ::
  "'g face3d_ops \<Rightarrow> 'g generator_ops \<Rightarrow> real \<Rightarrow> real \<Rightarrow> real \<Rightarrow> string option \<Rightarrow>
     'g face \<Rightarrow> ('g aperture option, 'g face) outcome" where
  "aperture_by_width_height L G width height sill_height aperture_identifier f =
     (if width \<le> 0 \<or> height \<le> 0 then Return None f
      else case acceptable_sub_face_check f of
        Some e \<Rightarrow> Raise e f
      | None \<Rightarrow>
          (let ap_face0 = g_centered_rectangle G (geometry f) width height sill_height;
               ap_face = (if g_normal_angle L (geometry f) ap_face0 > pi / 2
                          then g_flip L ap_face0 else ap_face0);
               ident = (case aperture_identifier of
                          Some s \<Rightarrow> if s = [] then face_identifier f @ ''_Glz'' @
                                                   str_nat (length (apertures f)) else s
                        | None \<Rightarrow> face_identifier f @ ''_Glz'' @ str_nat (length (apertures f)));
               aperture = new_aperture ident ap_face False
           in case add_aperture L aperture f of
                Raise e f' \<Rightarrow> Raise e f'
              | Return u f' \<Rightarrow> Return (Some (last (apertures f'))) f'))"

section \<open>Prefixes\<close>

text \<open>
  \<open>add_prefix\<close>, with \<open>clean_string\<close> of honeybee/typing.py as an argument. Modelled
  from the spec: \<open>add_prefix\<close> of Aperture and Door (not among the sources) changes the
  identifier and the display name of the sub-face the same way.
\<close>

definition add_prefix :: "(string \<Rightarrow> string) \<Rightarrow> string \<Rightarrow> 'g face \<Rightarrow> 'g face" where
  "add_prefix clean_string prefix f =
     f\<lparr>face_identifier := clean_string (prefix @ ''_'' @ face_identifier f),
       display_name := prefix @ ''_'' @ display_name f,
       apertures := map (\<lambda>a. a\<lparr>ap_identifier := clean_string (prefix @ ''_'' @ ap_identifier a),
                                ap_display_name := prefix @ ''_'' @ ap_display_name a\<rparr>)
                      (apertures f),
       doors := map (\<lambda>d. d\<lparr>dr_identifier := clean_string (prefix @ ''_'' @ dr_identifier d),
                            dr_display_name := prefix @ ''_'' @ dr_display_name d\<rparr>)
                  (doors f),
       boundary_condition :=
         (case boundary_condition f of
            Surface objs sf \<Rightarrow>
              Surface (map (\<lambda>adj_name. clean_string (prefix @ ''_'' @ adj_name)) objs) False
          | bc \<Rightarrow> bc)\<rparr>"

section \<open>Rectangularization\<close>

text \<open>
  \<open>Point3D.is_equivalent\<close> of ladybug_geometry: every coordinate within the tolerance.
\<close>

definition is_equivalent :: "point3 \<Rightarrow> point3 \<Rightarrow> real \<Rightarrow> bool" where
  "is_equivalent p q tolerance =
     (case p of (x1, y1, z1) \<Rightarrow> case q of (x2, y2, z2) \<Rightarrow>
        \<bar>x1 - x2\<bar> \<le> tolerance \<and> \<bar>y1 - y2\<bar> \<le> tolerance \<and> \<bar>z1 - z2\<bar> \<le> tolerance)"

text \<open>
  The geometric steps of \<open>rectangularize_apertures\<close>, each a computation in the
  reference plane made of calls into ladybug_geometry:
  \<^item> \<open>g_reference_plane\<close>: \<open>self._reference_plane(ang_tol)\<close> (lines 909 to 931);
  \<^item> \<open>g_join_coplanar_faces\<close>: \<open>Face3D.join_coplanar_faces\<close>;
  \<^item> \<open>g_gap_crossing_faces\<close>: the polygons of the geometries in the reference plane,
    \<open>Polygon2D.gap_crossing_boundary\<close> and the way back to Face3D (lines 727 to 750);
  \<^item> \<open>g_bounding_rectangle\<close>: the bounding rectangle of a geometry in the reference
    plane (lines 768 to 772);
  \<^item> \<open>g_rectangular_strips\<close>: the grid over an Aperture and its rows merged into
    rectangles (lines 811 to 897); None when \<open>Mesh2D.from_polygon_grid\<close> raises
    AssertionError;
  \<^item> \<open>g_polygon_relationship\<close>: \<open>polygon_relationship\<close> of the polygons of two
    geometries in the plane of a third (lines 2207 to 2216).
\<close>

record ('g, 'pl) rectangularize_ops =
  g_reference_plane :: "'g \<Rightarrow> real \<Rightarrow> 'pl"
  g_join_coplanar_faces :: "'g list \<Rightarrow> real \<Rightarrow> 'g list"
  g_gap_crossing_faces :: "'pl \<Rightarrow> 'g list \<Rightarrow> real \<Rightarrow> real \<Rightarrow> 'g list"
  g_bounding_rectangle :: "'pl \<Rightarrow> 'g \<Rightarrow> 'g"
  g_rectangular_strips :: "'pl \<Rightarrow> 'g \<Rightarrow> real \<Rightarrow> real \<Rightarrow> 'g list option"
  g_polygon_relationship :: "'g \<Rightarrow> 'g \<Rightarrow> 'g \<Rightarrow> real \<Rightarrow> int"

text \<open>
  \<open>_group_sub_faces_by_overlap\<close>: the sub-faces sorted by area, largest first, then
  each placed in the first group one of whose members it overlaps, or in a new group.
  \<open>sub_faces[0]\<close> raises IndexError on an empty list.
\<close>

fun place_in_groups :: "('a \<Rightarrow> 'a \<Rightarrow> bool) \<Rightarrow> 'a \<Rightarrow> 'a list list \<Rightarrow> 'a list list" where
  "place_in_groups overlaps face [] = [[face]]"
| "place_in_groups overlaps face (grp # grps) =
     (if list_ex (overlaps face) grp then (grp @ [face]) # grps
      else grp # place_in_groups overlaps face grps)"

definition group_sub_faces_by_overlap ::
  "'g face3d_ops \<Rightarrow> ('g, 'pl) rectangularize_ops \<Rightarrow> ('a \<Rightarrow> 'g) \<Rightarrow> 'a list \<Rightarrow> real \<Rightarrow>
     'a list list option" where
  "group_sub_faces_by_overlap L R geo sfs tolerance =
     (case sort_key (\<lambda>x. - g_area L (geo x)) sfs of
        [] \<Rightarrow> None
      | first # rest \<Rightarrow>
          Some (foldl (\<lambda>groups face.
                  place_in_groups
                    (\<lambda>a b. g_polygon_relationship R (geo first) (geo a) (geo b) tolerance \<ge> 0)
                    face groups)
                [[first]] rest))"

text \<open>\<open>_remove_overlapping_sub_faces\<close>: the largest sub-face of every group.\<close>

definition remove_overlapping_sub_faces ::
  "'g face3d_ops \<Rightarrow> ('g, 'pl) rectangularize_ops \<Rightarrow> ('a \<Rightarrow> 'g) \<Rightarrow> 'a list \<Rightarrow> real \<Rightarrow>
     'a list option" where
  "remove_overlapping_sub_faces L R geo sfs tolerance =
     map_option
       (\<lambda>groups. concat (map (\<lambda>grp. take 1 (sort_key (\<lambda>x. - g_area L (geo x)) grp)) groups))
       (group_sub_faces_by_overlap L R geo sfs tolerance)"

text \<open>
  The first loop of \<open>rectangularize_apertures\<close> (lines 694 to 708): the rectangular
  apertures, the others, and the cleaned geometries of the others. An aperture whose
  geometry is degenerate goes nowhere.
\<close>

fun sort_apertures ::
  "'g face3d_ops \<Rightarrow> real option \<Rightarrow> bool \<Rightarrow> real \<Rightarrow> real \<Rightarrow> 'g aperture list \<Rightarrow>
     'g aperture list \<times> 'g aperture list \<times> 'g list" where
  "sort_apertures L max_separation merge_all tol ang_tol [] = ([], [], [])"
| "sort_apertures L max_separation merge_all tol ang_tol (aperture # rest) =
     (case sort_apertures L max_separation merge_all tol ang_tol rest of
        (rect_aps, non_rect_aps, non_rect_geos) \<Rightarrow>
          (case g_remove_colinear_vertices L (ap_geometry aperture) tol of
             None \<Rightarrow> (rect_aps, non_rect_aps, non_rect_geos)
           | Some clean_geo \<Rightarrow>
               if max_separation = None \<or> \<not> merge_all
               then (if g_is_rectangle L clean_geo ang_tol
                     then (aperture # rect_aps, non_rect_aps, non_rect_geos)
                     else (rect_aps, aperture # non_rect_aps, clean_geo # non_rect_geos))
               else (rect_aps, aperture # non_rect_aps, clean_geo # non_rect_geos)))"

text \<open>
  What the first loop asks of the geometry of an aperture to keep it out of the
  non-rectangular ones when nothing is merged: it is degenerate, or a rectangle once
  its colinear vertices are removed.
\<close>

definition is_rectangular :: "'g face3d_ops \<Rightarrow> real \<Rightarrow> real \<Rightarrow> 'g \<Rightarrow> bool" where
  "is_rectangular L tolerance angle_tolerance g =
     (case g_remove_colinear_vertices L g tolerance of
        None \<Rightarrow> True
      | Some clean_geo \<Rightarrow> g_is_rectangle L clean_geo (radians angle_tolerance))"

text \<open>
  The merge of the non-rectangular geometries (lines 721 to 757): whether an edit
  occurred and the geometries that remain.
\<close>

definition merge_non_rect_geos ::
  "'g face3d_ops \<Rightarrow> ('g, 'pl) rectangularize_ops \<Rightarrow> 'pl \<Rightarrow> real option \<Rightarrow> bool \<Rightarrow> real \<Rightarrow>
     'g list \<Rightarrow> bool \<times> 'g list" where
  "merge_non_rect_geos L R ref_plane max_separation merge_all tol non_rect_geos =
     (case max_separation of
        None \<Rightarrow> (False, non_rect_geos)
      | Some sep \<Rightarrow>
          if merge_all \<or> (\<not> merge_all \<and> length non_rect_geos > 1)
          then (True,
                List.map_filter (\<lambda>ap_geo. g_remove_colinear_vertices L ap_geo tol)
                  (if sep \<le> tol then g_join_coplanar_faces R non_rect_geos tol
                   else g_gap_crossing_faces R ref_plane non_rect_geos sep tol))
          else (False, non_rect_geos))"

text \<open>
  The matching of the regenerated geometries with the original apertures (lines 780 to
  793): the first original whose center is equivalent to the center of the new geometry
  gives its identifier and its operable flag; without one the Aperture is new.
\<close>

definition matched_aperture ::
  "'g face3d_ops \<Rightarrow> string \<Rightarrow> real \<Rightarrow> 'g aperture list \<Rightarrow> nat \<Rightarrow> 'g \<Rightarrow> 'g aperture" where
  "matched_aperture L ident tolerance non_rect_aps i ap_face =
     (case find (\<lambda>old_ap. is_equivalent (g_center L (ap_geometry old_ap))
                             (g_center L ap_face) tolerance) non_rect_aps of
        None \<Rightarrow> new_aperture (ident @ ''_RG'' @ str_nat i) ap_face False
      | Some exist_ap \<Rightarrow>
          (new_aperture (ap_identifier exist_ap) ap_face (ap_is_operable exist_ap))
            \<lparr>ap_display_name := ap_display_name exist_ap @ ''_'' @ str_nat i\<rparr>)"

definition match_new_apertures ::
  "'g face3d_ops \<Rightarrow> string \<Rightarrow> real \<Rightarrow> 'g aperture list \<Rightarrow> 'g list \<Rightarrow> 'g aperture list" where
  "match_new_apertures L ident tolerance non_rect_aps non_rect_geos =
     map (\<lambda>(i, ap_face). matched_aperture L ident tolerance non_rect_aps i ap_face)
       (enumerate 0 non_rect_geos)"

text \<open>The strips of one Aperture when a subdivision distance is given (lines 806 to 902).\<close>

definition strips_of_aperture ::
  "'g face3d_ops \<Rightarrow> ('g, 'pl) rectangularize_ops \<Rightarrow> 'pl \<Rightarrow> real \<Rightarrow> real \<Rightarrow> real \<Rightarrow>
     'g aperture \<Rightarrow> 'g aperture list" where
  "strips_of_aperture L R ref_plane subdivision_distance tolerance ang_tol ap_obj =
     (if g_is_rectangle L (ap_geometry ap_obj) ang_tol then [ap_obj]
      else case g_rectangular_strips R ref_plane (ap_geometry ap_obj) subdivision_distance
                  tolerance of
        None \<Rightarrow> []
      | Some geos \<Rightarrow>
          map (\<lambda>(i, geo_3d).
                 (new_aperture (ap_identifier ap_obj @ ''_Glz'' @ str_nat i) geo_3d
                    (ap_is_operable ap_obj))
                   \<lparr>ap_display_name := ap_display_name ap_obj @ ''_'' @ str_nat i\<rparr>)
            (enumerate 0 geos))"

text \<open>
  Lines 712 to 716: unless the Face is already Outdoors, its boundary condition and the
  boundary conditions of the rectangular apertures, which are objects of
  \<open>self._apertures\<close>, become Outdoors.
\<close>

definition reset_to_outdoors :: "'g aperture list \<Rightarrow> 'g face \<Rightarrow> 'g aperture list \<times> 'g face" where
  "reset_to_outdoors rect_aps f =
     (if boundary_condition f \<noteq> Outdoors
      then (map (\<lambda>ap. ap\<lparr>ap_boundary_condition := Outdoors\<rparr>) rect_aps,
            f\<lparr>boundary_condition := Outdoors,
              apertures := map (\<lambda>ap. if ap \<in> set rect_aps
                                      then ap\<lparr>ap_boundary_condition := Outdoors\<rparr> else ap)
                             (apertures f)\<rparr>)
      else (rect_aps, f))"

definition rectangularize_apertures ::
  "'g face3d_ops \<Rightarrow> ('g, 'pl) rectangularize_ops \<Rightarrow> real option \<Rightarrow> real option \<Rightarrow> bool \<Rightarrow>
     real \<Rightarrow> real \<Rightarrow> 'g face \<Rightarrow> (bool, 'g face) outcome" where
  "rectangularize_apertures L R subdivision_distance max_separation merge_all tolerance
       angle_tolerance f =
     (if length (apertures f) = 0 then Return False f
      else
        (let ang_tol = radians angle_tolerance in
         case sort_apertures L max_separation merge_all tolerance ang_tol (apertures f) of
           (rect_aps0, non_rect_aps, non_rect_geos0) \<Rightarrow>
             if non_rect_geos0 = [] then Return False f
             else
               (case reset_to_outdoors rect_aps0 f of
                  (rect_aps, f1) \<Rightarrow>
                    (let ref_plane = g_reference_plane R (geometry f1) ang_tol in
                     case merge_non_rect_geos L R ref_plane max_separation merge_all tolerance
                            non_rect_geos0 of
                       (merged, non_rect_geos1) \<Rightarrow>
                         (let edits_occurred = (merged \<or> subdivision_distance = None);
                              non_rect_geos =
                                (if subdivision_distance = None
                                 then map (\<lambda>ap_geo. if g_is_rectangle L ap_geo ang_tol then ap_geo
                                                     else g_bounding_rectangle R ref_plane ap_geo)
                                        non_rect_geos1
                                 else non_rect_geos1);
                              new_aps =
                                (if \<not> edits_occurred then non_rect_aps
                                 else match_new_apertures L (face_identifier f1) tolerance
                                        non_rect_aps non_rect_geos)
                          in case subdivision_distance of
                               None \<Rightarrow>
                                 (case remove_overlapping_sub_faces L R ap_geometry
                                         (rect_aps @ new_aps) tolerance of
                                    None \<Rightarrow> Raise IndexError f1
                                  | Some all_aps \<Rightarrow>
                                      (case add_apertures L all_aps (fst (remove_apertures f1)) of
                                         Raise e f2 \<Rightarrow> Raise e f2
                                       | Return u f2 \<Rightarrow> Return True f2))
                             | Some sd \<Rightarrow>
                                 (case add_apertures L
                                         (rect_aps @
                                          concat (map (strips_of_aperture L R ref_plane sd
                                                         tolerance ang_tol) new_aps))
                                         (fst (remove_apertures f1)) of
                                    Raise e f2 \<Rightarrow> Raise e f2
                                  | Return u f2 \<Rightarrow> Return True f2))))))"

section \<open>Repair of sub-faces\<close>

text \<open>
  The polygons of a Face's plane (Polygon2D of ladybug_geometry, type \<open>'p\<close>):
  \<^item> \<open>p_of_sub_face\<close>: the boundary of a sub-face geometry projected into the plane of
    the Face geometry, with colinear vertices removed within the tolerance; None when
    \<open>remove_colinear_vertices\<close> raises AssertionError;
  \<^item> \<open>p_area\<close>, \<open>p_center\<close>, \<open>p_is_point_inside_bound_rect\<close>,
    \<open>p_remove_colinear_vertices\<close> (None on AssertionError), \<open>p_offset\<close> (None when
    the offset polygon does not exist);
  \<^item> \<open>p_to_face3d\<close>: the Face3D of a polygon in the plane of the Face geometry;
  \<^item> \<open>p_parent_polygon\<close>, \<open>p_parent_holes\<close>: the boundary and the holes of the Face
    geometry as polygons (lines 1109 to 1116);
  \<^item> \<open>p_is_polygon_inside\<close>, \<open>p_is_polygon_outside\<close>;
  \<^item> \<open>p_trimmed_with_parent\<close>: the intersection of a polygon with the Face geometry,
    its points moved away from the edges of the parent by the offset distance (lines
    1122 to 1141); None when \<open>Face3D.coplanar_intersection\<close> returns None;
  \<^item> \<open>p_group_by_overlap\<close>, \<open>p_boolean_union_all\<close>,
    \<open>p_joined_intersected_boundary\<close>, \<open>p_gap_crossing_boundary\<close>;
  \<^item> \<open>g_project_into_plane\<close>: a sub-face geometry projected into the plane of the
    Face geometry (lines 1060 to 1065).
\<close>

record ('g, 'p) polygon_ops =
  p_of_sub_face :: "'g \<Rightarrow> 'g \<Rightarrow> real \<Rightarrow> 'p option"
  p_area :: "'p \<Rightarrow> real"
  p_center :: "'p \<Rightarrow> real \<times> real"
  p_is_point_inside_bound_rect :: "'p \<Rightarrow> real \<times> real \<Rightarrow> bool"
  p_remove_colinear_vertices :: "'p \<Rightarrow> real \<Rightarrow> 'p option"
  p_offset :: "'p \<Rightarrow> real \<Rightarrow> 'p option"
  p_to_face3d :: "'g \<Rightarrow> 'p \<Rightarrow> 'g"
  p_parent_polygon :: "'g \<Rightarrow> 'p"
  p_parent_holes :: "'g \<Rightarrow> 'p list option"
  p_is_polygon_inside :: "'p \<Rightarrow> 'p \<Rightarrow> bool"
  p_is_polygon_outside :: "'p \<Rightarrow> 'p \<Rightarrow> bool"
  p_trimmed_with_parent :: "'g \<Rightarrow> 'p \<Rightarrow> real \<Rightarrow> real \<Rightarrow> 'p list option"
  p_group_by_overlap :: "'p list \<Rightarrow> real \<Rightarrow> 'p list list"
  p_boolean_union_all :: "'p list \<Rightarrow> real \<Rightarrow> 'p list"
  p_joined_intersected_boundary :: "'p list \<Rightarrow> real \<Rightarrow> 'p list"
  p_gap_crossing_boundary :: "'p list \<Rightarrow> real \<Rightarrow> real \<Rightarrow> 'p list"
  g_project_into_plane :: "'g \<Rightarrow> 'g \<Rightarrow> 'g"

text \<open>
  Modelled from the spec: \<open>duplicate\<close> of Aperture and Door (not among the sources): a
  copy of the sub-face that belongs to no Face.
\<close>

definition duplicate_aperture :: "'g aperture \<Rightarrow> 'g aperture" where
  "duplicate_aperture a = a\<lparr>ap_parent := None\<rparr>"

definition duplicate_door :: "'g door \<Rightarrow> 'g door" where
  "duplicate_door d = d\<lparr>dr_parent := None\<rparr>"


text \<open>
  The first loop of \<open>fix_invalid_sub_faces\<close> and of \<open>merge_neighboring_sub_faces\<close>: the
  polygons of the sub-faces that are not degenerate, each with its sub-face.
\<close>

definition collect_polygons ::
  "('g, 'p) polygon_ops \<Rightarrow> real \<Rightarrow> 'g face \<Rightarrow> ('p \<times> 'g sub_face) list" where
  "collect_polygons P tolerance f =
     List.map_filter
       (\<lambda>sub_f. map_option (\<lambda>poly. (poly, sub_f))
                   (p_of_sub_face P (geometry f) (sub_face_geometry sub_f) tolerance))
       (sub_faces f)"

definition total_area :: "('g, 'p) polygon_ops \<Rightarrow> 'p list \<Rightarrow> real" where
  "total_area P polys = sum_list (map (p_area P) polys)"



text \<open>
  The loop that rebuilds the sub-faces from the new polygons (lines 1168 to 1186): each
  polygon takes the first original object whose polygon has its center inside the
  bounding rectangle of the new polygon, and becomes a copy of it with the new geometry;
  without one it becomes a new Aperture named \<open><identifier>_<i>\<close>.
\<close>

fun rebuild_sub_faces ::
  "'g face3d_ops \<Rightarrow> ('g, 'p) polygon_ops \<Rightarrow> ('p \<times> 'g sub_face) list \<Rightarrow> nat \<Rightarrow> 'p list \<Rightarrow>
     'g face \<Rightarrow> (unit, 'g face) outcome" where
  "rebuild_sub_faces L P originals i [] f = Return () f"
| "rebuild_sub_faces L P originals i (n_poly # rest) f =
     (let new_geo = p_to_face3d P (geometry f) n_poly
      in case (case find (\<lambda>(o_poly, o_obj).
                            p_is_point_inside_bound_rect P n_poly (p_center P o_poly)) originals of
                 None \<Rightarrow>
                   add_aperture L (new_aperture (face_identifier f @ ''_'' @ str_nat i) new_geo False) f
               | Some (o_poly, Ap orig_obj) \<Rightarrow>
                   add_aperture L ((duplicate_aperture orig_obj)\<lparr>ap_geometry := new_geo\<rparr>) f
               | Some (o_poly, Dr orig_obj) \<Rightarrow>
                   add_door L ((duplicate_door orig_obj)\<lparr>dr_geometry := new_geo\<rparr>) f) of
           Raise e f' \<Rightarrow> Raise e f'
         | Return u f' \<Rightarrow> rebuild_sub_faces L P originals (Suc i) rest f')"

text \<open>
  The test that decides whether the sub-faces are rebuilt: the number of polygons
  changed, or the total area changed by more than the tolerance.
\<close>

definition polygons_edited :: "('g, 'p) polygon_ops \<Rightarrow> real \<Rightarrow> 'p list \<Rightarrow> 'p list \<Rightarrow> bool" where
  "polygons_edited P tolerance original_polys clean_polys =
     (length clean_polys \<noteq> length original_polys \<or>
      \<bar>total_area P original_polys - total_area P clean_polys\<bar> > tolerance)"



definition merge_neighboring_sub_faces ::
  "'g face3d_ops \<Rightarrow> ('g, 'p) polygon_ops \<Rightarrow> real \<Rightarrow> real \<Rightarrow> 'g face \<Rightarrow>
     (unit, 'g face) outcome" where
  "merge_neighboring_sub_faces L P merge_distance tolerance f =
     (if length (sub_faces f) \<le> 1 then Return () f
      else
        (let originals = collect_polygons P tolerance f;
             original_polys = map fst originals;
             joined = (if merge_distance \<le> tolerance
                       then p_joined_intersected_boundary P original_polys tolerance
                       else p_gap_crossing_boundary P original_polys merge_distance tolerance)
         in if polygons_edited P tolerance original_polys joined
            then (case those (map (\<lambda>poly. p_remove_colinear_vertices P poly tolerance) joined) of
                    None \<Rightarrow> Raise AssertionError f
                  | Some clean_polys \<Rightarrow>
                      rebuild_sub_faces L P originals 0 clean_polys (fst (remove_sub_faces f)))
            else Return () f))"

definition offset_aperture_edges ::
  "'g face3d_ops \<Rightarrow> ('g, 'p) polygon_ops \<Rightarrow> real \<Rightarrow> real \<Rightarrow> 'g face \<Rightarrow>
     (unit, 'g face) outcome" where
  "offset_aperture_edges L P offset_distance tolerance f =
     add_apertures L
       (map (\<lambda>ap. case p_of_sub_face P (geometry f) (ap_geometry ap) tolerance of
                     None \<Rightarrow> ap\<lparr>ap_parent := None\<rparr>
                   | Some poly \<Rightarrow>
                       (case p_offset P poly (- offset_distance) of
                          None \<Rightarrow> ap\<lparr>ap_parent := None\<rparr>
                        | Some off_poly \<Rightarrow>
                            (duplicate_aperture ap)
                              \<lparr>ap_geometry := p_to_face3d P (geometry f) off_poly\<rparr>))
          (apertures f))
       (fst (remove_apertures f))"

definition project_and_add_sub_face ::
  "'g face3d_ops \<Rightarrow> ('g, 'p) polygon_ops \<Rightarrow> 'g sub_face \<Rightarrow> real option \<Rightarrow> 'g face \<Rightarrow>
     (unit, 'g face) outcome" where
  "project_and_add_sub_face L P sub_f angle_tolerance f =
     (let parallel =
            (case angle_tolerance of
               None \<Rightarrow> True
             | Some a \<Rightarrow>
                 \<not> (radians a < g_normal_angle L (sub_face_geometry sub_f) (geometry f) \<and>
                    g_normal_angle L (sub_face_geometry sub_f) (geometry f) < pi - radians a))
      in if parallel
         then add_sub_face L
                (case sub_f of
                   Ap a \<Rightarrow> Ap (a\<lparr>ap_geometry := g_project_into_plane P (geometry f) (ap_geometry a)\<rparr>)
                 | Dr d \<Rightarrow> Dr (d\<lparr>dr_geometry := g_project_into_plane P (geometry f) (dr_geometry d)\<rparr>))
                f
         else Return () f)"

section \<open>A small geometry library to run the definitions on\<close>

text \<open>
  Polygons in the vertical plane \<open>y = 0\<close>, as a boundary and a list of holes. The center is
  the center of the bounding box, as in ladybug_geometry; the area is the shoelace sum of
  the boundary; a shape without area is degenerate; all shapes face the same way.
\<close>

datatype shape = Shape (boundary: "point3 list") (holes: "point3 list list")

definition lowest :: "real list \<Rightarrow> real" where
  "lowest xs = fold min xs (hd xs)"

definition highest :: "real list \<Rightarrow> real" where
  "highest xs = fold max xs (hd xs)"

definition shape_min :: "shape \<Rightarrow> point3" where
  "shape_min g =
     (lowest (map fst (boundary g)), lowest (map (\<lambda>p. fst (snd p)) (boundary g)),
      lowest (map (\<lambda>p. snd (snd p)) (boundary g)))"

definition shape_max :: "shape \<Rightarrow> point3" where
  "shape_max g =
     (highest (map fst (boundary g)), highest (map (\<lambda>p. fst (snd p)) (boundary g)),
      highest (map (\<lambda>p. snd (snd p)) (boundary g)))"

definition shape_center :: "shape \<Rightarrow> point3" where
  "shape_center g =
     (case shape_min g of (x0, y0, z0) \<Rightarrow> case shape_max g of (x1, y1, z1) \<Rightarrow>
        ((x0 + x1) / 2, (y0 + y1) / 2, (z0 + z1) / 2))"

fun shoelace :: "point3 list \<Rightarrow> real" where
  "shoelace ((x1, y1, z1) # (x2, y2, z2) # ps) =
     (x1 * z2 - x2 * z1) + shoelace ((x2, y2, z2) # ps)"
| "shoelace ps = 0"

definition shape_area :: "shape \<Rightarrow> real" where
  "shape_area g =
     (if boundary g = [] then 0 else \<bar>shoelace (boundary g @ [hd (boundary g)])\<bar> / 2)"

definition shape_is_rectangle :: "shape \<Rightarrow> bool" where
  "shape_is_rectangle g =
     (length (boundary g) = 4 \<and>
      (case shape_min g of (x0, y0, z0) \<Rightarrow> case shape_max g of (x1, y1, z1) \<Rightarrow>
         shape_area g = (x1 - x0) * (z1 - z0)))"

definition example_ops :: "shape face3d_ops" where
  "example_ops =
     \<lparr>g_normal_angle = (\<lambda>a b. 0),
      g_flip = (\<lambda>g. Shape (rev (boundary g)) (map rev (holes g))),
      g_from_punched_geometry = (\<lambda>base subs. Shape (boundary base) (map boundary subs @ holes base)),
      g_center = shape_center,
      g_area = shape_area,
      g_remove_colinear_vertices = (\<lambda>g tol. if shape_area g = 0 then None else Some g),
      g_is_rectangle = (\<lambda>g ang_tol. shape_is_rectangle g)\<rparr>"

text \<open>The rectangle with lower left corner \<open>(x, 0, z)\<close>, width \<open>w\<close> and height \<open>h\<close>.\<close>

definition rectangle :: "real \<Rightarrow> real \<Rightarrow> real \<Rightarrow> real \<Rightarrow> shape" where
  "rectangle x z w h = Shape [(x, 0, z), (x + w, 0, z), (x + w, 0, z + h), (x, 0, z + h)] []"

text \<open>
  An outdoor wall of 10 by 3 with the given identifier, and the same wall holding
  sub-faces that were added to it.
\<close>

definition example_wall :: "string \<Rightarrow> shape face" where
  "example_wall ident =
     face_init (\<lambda>g. Wall) (\<lambda>g. Outdoors) ident (rectangle 0 0 10 3) None None"

definition example_aperture :: "string \<Rightarrow> string \<Rightarrow> shape \<Rightarrow> shape aperture" where
  "example_aperture ident face_id geo = (new_aperture ident geo False)\<lparr>ap_parent := Some face_id\<rparr>"

definition example_door :: "string \<Rightarrow> string \<Rightarrow> shape \<Rightarrow> shape door" where
  "example_door ident face_id geo = (new_door ident geo)\<lparr>dr_parent := Some face_id\<rparr>"

text \<open>Walls with windows, for the adjacency examples.\<close>

definition one_window_wall :: "shape face" where
  "one_window_wall =
     (example_wall ''F1'')\<lparr>apertures := [example_aperture ''A1'' ''F1'' (rectangle 1 1 2 2)]\<rparr>"

definition facing_wall :: "shape face" where
  "facing_wall =
     (example_wall ''F3'')\<lparr>apertures := [example_aperture ''C1'' ''F3'' (rectangle 1 1 2 2)]\<rparr>"

definition two_window_wall :: "shape face" where
  "two_window_wall =
     (example_wall ''F2'')\<lparr>apertures :=
        [example_aperture ''B1'' ''F2'' (rectangle 1 1 2 2),
         example_aperture ''B2'' ''F2'' (rectangle 6 1 1 1)]\<rparr>"

definition concentric_wall :: "shape face" where
  "concentric_wall =
     (example_wall ''F4'')\<lparr>apertures :=
        [example_aperture ''A1'' ''F4'' (rectangle 1 1 2 2),
         example_aperture ''A2'' ''F4'' (rectangle (3 / 2) (3 / 2) 1 1)]\<rparr>"

text \<open>
  A wall with a window and a door, and a wall with a window and a sliver (three
  colinear vertices: a degenerate aperture).
\<close>

definition door_wall :: "shape face" where
  "door_wall =
     (example_wall ''F1'')\<lparr>apertures := [example_aperture ''A1'' ''F1'' (rectangle 1 1 2 1)],
                            doors := [example_door ''D1'' ''F1'' (rectangle 4 0 1 2)]\<rparr>"

definition sliver :: shape where
  "sliver = Shape [(5, 0, 1), (6, 0, 1), (7, 0, 1)] []"

definition sliver_wall :: "shape face" where
  "sliver_wall =
     (example_wall ''F1'')\<lparr>apertures := [example_aperture ''A1'' ''F1'' (rectangle 1 1 2 1),
                                          example_aperture ''S1'' ''F1'' sliver]\<rparr>"

text \<open>
  Generators for the examples: one window, the shape of the Face shrunk horizontally
  about its center by the ratio, so that its area is the ratio times the area of the
  Face.
\<close>

definition shrink :: "real \<Rightarrow> shape \<Rightarrow> shape" where
  "shrink r g =
     (case shape_center g of (cx, cy, cz) \<Rightarrow>
        Shape (map (\<lambda>(x, y, z). (cx + r * (x - cx), y, z)) (boundary g)) [])"

definition example_generators :: "shape generator_ops" where
  "example_generators =
     \<lparr>g_sub_faces_by_ratio_rectangle = (\<lambda>g r tol. [shrink r g]),
      g_sub_faces_by_ratio = (\<lambda>g r. [shrink r g]),
      g_sub_faces_by_ratio_sub_rectangle = (\<lambda>g r h s hs vs tol. [shrink r g]),
      g_sub_faces_by_ratio_gridded = (\<lambda>g r x y. [shrink r g]),
      g_sub_faces_by_dimension_rectangle = (\<lambda>g h w s hs tol. []),
      g_centered_rectangle = (\<lambda>g w h s. rectangle (fst (shape_center g) - w / 2) s w h)\<rparr>"

text \<open>The wall of \<open>one_window_wall\<close> after it was set adjacent to \<open>facing_wall\<close>.\<close>

definition interior_wall :: "shape face" where
  "interior_wall =
     (example_wall ''F1'')\<lparr>
        apertures := [(example_aperture ''A1'' ''F1'' (rectangle 1 1 2 2))
                        \<lparr>ap_boundary_condition := Surface [''C1'', ''F3''] True\<rparr>],
        boundary_condition := Surface [''F3''] False\<rparr>"

text \<open>Rectangularization on the examples: nothing is merged, no plane is needed.\<close>

definition example_rectangularize_ops :: "(shape, unit) rectangularize_ops" where
  "example_rectangularize_ops =
     \<lparr>g_reference_plane = (\<lambda>g ang_tol. ()),
      g_join_coplanar_faces = (\<lambda>gs tol. gs),
      g_gap_crossing_faces = (\<lambda>pl gs sep tol. gs),
      g_bounding_rectangle =
        (\<lambda>pl g. case shape_min g of (x0, y0, z0) \<Rightarrow> case shape_max g of (x1, y1, z1) \<Rightarrow>
                   rectangle x0 z0 (x1 - x0) (z1 - z0)),
      g_rectangular_strips = (\<lambda>pl g sd tol. None),
      g_polygon_relationship = (\<lambda>pl a b tol. - 1)\<rparr>"

text \<open>
  Two triangular windows on either side of a diagonal frame, and rectangularization
  operations whose joined boundary is the bounding rectangle of the joined geometries.
  \<open>inside_bounding_rectangle\<close> says that a point lies within the bounding rectangle of
  a shape.
\<close>

definition triangle_wall :: "shape face" where
  "triangle_wall =
     (example_wall ''F1'')\<lparr>apertures :=
        [(example_aperture ''T1'' ''F1'' (Shape [(0, 0, 0), (2, 0, 0), (0, 0, 1)] []))
           \<lparr>ap_is_operable := True\<rparr>,
         example_aperture ''T2'' ''F1''
           (Shape [(21 / 10, 0, 11 / 10), (1 / 10, 0, 11 / 10), (21 / 10, 0, 1 / 10)] [])]\<rparr>"






text \<open>
  Modelled from the spec: the grid subdivision of an Aperture into row-merged rectangular
  strips (lines 811 to 897, built on \<open>Mesh2D.from_polygon_grid\<close> and
  \<open>Polygon2D.from_rectangle\<close> of ladybug_geometry). Here the strips are the rows of
  height \<open>subdivision_distance\<close> across the bounding rectangle of the shape; a shape
  smaller than the resolution has none (\<open>from_polygon_grid\<close> raises AssertionError).
  \<open>subdividing_rectangularize_ops\<close> are the operations of the examples with these
  strips.
\<close>

definition row_strips :: "shape \<Rightarrow> real \<Rightarrow> shape list option" where
  "row_strips g sd =
     (case shape_min g of (x0, y0, z0) \<Rightarrow> case shape_max g of (x1, y1, z1) \<Rightarrow>
        if sd \<le> 0 \<or> x1 - x0 < sd \<or> z1 - z0 < sd then None
        else Some (map (\<lambda>k. rectangle x0 (z0 + real k * sd) (x1 - x0) sd)
                     [0..<nat \<lfloor>(z1 - z0) / sd\<rfloor>]))"

definition subdividing_rectangularize_ops :: "(shape, unit) rectangularize_ops" where
  "subdividing_rectangularize_ops =
     example_rectangularize_ops\<lparr>g_rectangular_strips := (\<lambda>pl g sd tol. row_strips g sd)\<rparr>"

section \<open>Adjacency: the pairing loops\<close>

lemma first_adjacent_None_iff:
  "first_adjacent tol p cs = None \<longleftrightarrow> (\<forall>c\<in>set cs. \<not> distance_to_point p c \<le> tol)"
  by (induction cs) auto

lemma first_adjacent_less:
  "first_adjacent tol p cs = Some j \<Longrightarrow> j < length cs"
  by (induction cs arbitrary: j) (auto split: if_splits)

lemma map_geometry_update:
  "map ap_geometry (others[j := snd (aperture_set_adjacency a (others ! j))]) = map ap_geometry others"
  by (simp add: aperture_set_adjacency_def map_update list_update_same_conv)
     (metis list_update_id map_update)

lemma pair_apertures_geometry:
  "pair_apertures L tol i aps others = (aps', others', pairs) \<Longrightarrow>
     map ap_geometry aps' = map ap_geometry aps \<and>
     map ap_geometry others' = map ap_geometry others"
proof (induction L tol i aps others arbitrary: aps' others' pairs rule: pair_apertures.induct)
  case (1 L tol i others)
  then show ?case by simp
next
  case (2 L tol i a rest others)
  show ?case
  proof (cases "first_adjacent tol (g_center L (ap_geometry a))
             (map (\<lambda>b. g_center L (ap_geometry b)) others)")
    case None
    with "2.prems" obtain r where
      r: "pair_apertures L tol (Suc i) rest others = (r, others', pairs)" and a: "aps' = a # r"
      by (auto split: prod.splits)
    from "2.IH"(1)[OF None r] a show ?thesis by simp
  next
    case (Some j)
    obtain a1 a2 where p: "aperture_set_adjacency a (others ! j) = (a1, a2)"
      by (cases "aperture_set_adjacency a (others ! j)") 
    with Some "2.prems" obtain r ps where
      r: "pair_apertures L tol (Suc i) rest (others[j := a2]) = (r, others', ps)" 
      and a: "aps' = a1 # r"
      by (auto split: prod.splits)
    have g1: "ap_geometry a1 = ap_geometry a" using p by (auto simp: aperture_set_adjacency_def)
    have g2: "map ap_geometry (others[j := a2]) = map ap_geometry others"
      using map_geometry_update[of others j a] p by simp
    from "2.IH"(2)[OF Some p[symmetric] r] a g1 g2 show ?thesis by simp
  qed
qed

lemma pair_apertures_found:
  "pair_apertures L tol i aps others = (aps', others', pairs) \<Longrightarrow>
     length pairs = length (filter (\<lambda>a. \<exists>b\<in>set others.
        distance_to_point (g_center L (ap_geometry a)) (g_center L (ap_geometry b)) \<le> tol) aps)"
proof (induction L tol i aps others arbitrary: aps' others' pairs rule: pair_apertures.induct)
  case (1 L tol i others)
  then show ?case by simp
next
  case (2 L tol i a rest others)
  let ?P = "\<lambda>os a. \<exists>b\<in>set os.
        distance_to_point (g_center L (ap_geometry a)) (g_center L (ap_geometry b)) \<le> tol"
  show ?case
  proof (cases "first_adjacent tol (g_center L (ap_geometry a))
             (map (\<lambda>b. g_center L (ap_geometry b)) others)")
    case None
    with "2.prems" obtain r where
      r: "pair_apertures L tol (Suc i) rest others = (r, others', pairs)" and a: "aps' = a # r"
      by (auto split: prod.splits)
    have "\<not> ?P others a" using None by (auto simp: first_adjacent_None_iff)
    with "2.IH"(1)[OF None r] show ?thesis by simp
  next
    case (Some j)
    obtain a1 a2 where p: "aperture_set_adjacency a (others ! j) = (a1, a2)"
      by (cases "aperture_set_adjacency a (others ! j)") 
    with Some "2.prems" obtain r ps where
      r: "pair_apertures L tol (Suc i) rest (others[j := a2]) = (r, others', ps)" 
      and a: "pairs = (i, j) # ps"
      by (auto split: prod.splits)
    have g2: "map ap_geometry (others[j := a2]) = map ap_geometry others"
      using map_geometry_update[of others j a] p by simp
    have "set (map ap_geometry (others[j := a2])) = set (map ap_geometry others)"
      using g2 by simp
    then have same: "\<And>x. ?P (others[j := a2]) x = ?P others x"
      by (auto simp: image_iff) (metis (no_types, lifting) image_iff)+
    have "?P others a"
      using Some first_adjacent_None_iff[of tol "g_center L (ap_geometry a)" "map (\<lambda>b. g_center L (ap_geometry b)) others"]
      by auto
    from same have same': "?P (others[j := a2]) = ?P others" by (intro ext)
    from "2.IH"(2)[OF Some p[symmetric] r] have "length ps = length (filter (?P others) rest)"
      by (simp only: same')
    with a \<open>?P others a\<close> show ?thesis by simp
  qed
qed


lemma length_filter_eq_iff:
  "length (filter P xs) = length xs \<longleftrightarrow> (\<forall>x\<in>set xs. P x)"
  by (metis filter_True length_filter_less less_irrefl)

lemma map_door_geometry_update:
  "map dr_geometry (others[j := snd (door_set_adjacency a (others ! j))]) = map dr_geometry others"
  by (simp add: door_set_adjacency_def map_update list_update_same_conv)
     (metis list_update_id map_update)

lemma pair_doors_found:
  "pair_doors L tol i drs others = (drs', others', pairs) \<Longrightarrow>
     length pairs = length (filter (\<lambda>a. \<exists>b\<in>set others.
        distance_to_point (g_center L (dr_geometry a)) (g_center L (dr_geometry b)) \<le> tol) drs)"
proof (induction L tol i drs others arbitrary: drs' others' pairs rule: pair_doors.induct)
  case (1 L tol i others)
  then show ?case by simp
next
  case (2 L tol i a rest others)
  let ?P = "\<lambda>os a. \<exists>b\<in>set os.
        distance_to_point (g_center L (dr_geometry a)) (g_center L (dr_geometry b)) \<le> tol"
  show ?case
  proof (cases "first_adjacent tol (g_center L (dr_geometry a))
             (map (\<lambda>b. g_center L (dr_geometry b)) others)")
    case None
    with "2.prems" obtain r where
      r: "pair_doors L tol (Suc i) rest others = (r, others', pairs)" and a: "drs' = a # r"
      by (auto split: prod.splits)
    have "\<not> ?P others a" using None by (auto simp: first_adjacent_None_iff)
    with "2.IH"(1)[OF None r] show ?thesis by simp
  next
    case (Some j)
    obtain a1 a2 where p: "door_set_adjacency a (others ! j) = (a1, a2)"
      by (cases "door_set_adjacency a (others ! j)") 
    with Some "2.prems" obtain r ps where
      r: "pair_doors L tol (Suc i) rest (others[j := a2]) = (r, others', ps)" 
      and a: "pairs = (i, j) # ps"
      by (auto split: prod.splits)
    have g2: "map dr_geometry (others[j := a2]) = map dr_geometry others"
      using map_door_geometry_update[of others j a] p by simp
    have "set (map dr_geometry (others[j := a2])) = set (map dr_geometry others)"
      using g2 by simp
    then have same: "\<And>x. ?P (others[j := a2]) x = ?P others x"
      by (auto simp: image_iff) (metis (no_types, lifting) image_iff)+
    have "?P others a"
      using Some first_adjacent_None_iff[of tol "g_center L (dr_geometry a)" "map (\<lambda>b. g_center L (dr_geometry b)) others"]
      by auto
    from same have same': "?P (others[j := a2]) = ?P others" by (intro ext)
    from "2.IH"(2)[OF Some p[symmetric] r] have "length ps = length (filter (?P others) rest)"
      by (simp only: same')
    with a \<open>?P others a\<close> show ?thesis by simp
  qed
qed


lemma pair_apertures_all_iff:
  assumes "pair_apertures L tol i aps others = (aps', others', pairs)"
  shows "length aps = length pairs \<longleftrightarrow> (\<forall>a\<in>set aps. \<exists>b\<in>set others.
        distance_to_point (g_center L (ap_geometry a)) (g_center L (ap_geometry b)) \<le> tol)"
proof -
  let ?P = "\<lambda>a. \<exists>b\<in>set others.
        distance_to_point (g_center L (ap_geometry a)) (g_center L (ap_geometry b)) \<le> tol"
  have "length pairs = length (filter ?P aps)" by (rule pair_apertures_found[OF assms])
  then have "length aps = length pairs \<longleftrightarrow> length (filter ?P aps) = length aps" by auto
  then show ?thesis by (simp only: length_filter_eq_iff)
qed

lemma pair_doors_all_iff:
  assumes "pair_doors L tol i aps others = (aps', others', pairs)"
  shows "length aps = length pairs \<longleftrightarrow> (\<forall>a\<in>set aps. \<exists>b\<in>set others.
        distance_to_point (g_center L (dr_geometry a)) (g_center L (dr_geometry b)) \<le> tol)"
proof -
  let ?P = "\<lambda>a. \<exists>b\<in>set others.
        distance_to_point (g_center L (dr_geometry a)) (g_center L (dr_geometry b)) \<le> tol"
  have "length pairs = length (filter ?P aps)" by (rule pair_doors_found[OF assms])
  then have "length aps = length pairs \<longleftrightarrow> length (filter ?P aps) = length aps" by auto
  then show ?thesis by (simp only: length_filter_eq_iff)
qed

lemma match_apertures_eq: "match_apertures L tol xs ys = pair_apertures L tol 0 xs ys"
  by (cases xs) (auto simp: match_apertures_def)

lemma match_doors_eq: "match_doors L tol xs ys = pair_doors L tol 0 xs ys"
  by (cases xs) (auto simp: match_doors_def)

lemma set_adjacency_unfold:
  assumes pa: "pair_apertures L tol 0 (apertures self) (apertures other) = (aps1, aps2, ap_pairs)"
      and pd: "pair_doors L tol 0 (doors self) (doors other) = (drs1, drs2, dr_pairs)"
  shows "set_adjacency L tol self other =
     (if length (apertures self) \<noteq> length (apertures other)
      then Raise AssertionError (self\<lparr>boundary_condition := surface other\<rparr>,
             other\<lparr>boundary_condition := surface self\<rparr>)
      else if length (apertures self) \<noteq> length ap_pairs \<or> length (doors self) \<noteq> length (doors other)
      then Raise AssertionError (self\<lparr>boundary_condition := surface other, apertures := aps1\<rparr>,
             other\<lparr>boundary_condition := surface self, apertures := aps2\<rparr>)
      else if length (doors self) \<noteq> length dr_pairs
      then Raise AssertionError
            (self\<lparr>boundary_condition := surface other, apertures := aps1, doors := drs1\<rparr>,
             other\<lparr>boundary_condition := surface self, apertures := aps2, doors := drs2\<rparr>)
      else Return \<lparr>adjacent_apertures = ap_pairs, adjacent_doors = dr_pairs\<rparr>
            (self\<lparr>boundary_condition := surface other, apertures := aps1, doors := drs1\<rparr>,
             other\<lparr>boundary_condition := surface self, apertures := aps2, doors := drs2\<rparr>))"
proof -
  have z: "length (apertures self) \<noteq> length ap_pairs \<Longrightarrow>
      length (apertures self) = length (apertures other) \<Longrightarrow>
      apertures self \<noteq> [] \<and> apertures other \<noteq> []"
    using pa by auto
  have zd: "length (doors self) \<noteq> length dr_pairs \<Longrightarrow>
      length (doors self) = length (doors other) \<Longrightarrow>
      doors self \<noteq> [] \<and> doors other \<noteq> []"
    using pd by auto
  show ?thesis
  proof (cases "length (apertures self) \<noteq> length (apertures other)")
    case True
    show ?thesis unfolding set_adjacency_def Let_def using True by (simp split del: if_split)
  next
    case l1: False
    show ?thesis
    proof (cases "length (apertures self) \<noteq> length ap_pairs")
      case True
      show ?thesis unfolding set_adjacency_def Let_def match_apertures_eq
        using True l1 z[OF True] by (simp add: pa split del: if_split)
    next
      case l2: False
      show ?thesis
      proof (cases "length (doors self) \<noteq> length (doors other)")
        case True
        show ?thesis unfolding set_adjacency_def Let_def match_apertures_eq
          using True l1 l2 by (simp add: pa split del: if_split)
      next
        case l3: False
        show ?thesis
        proof (cases "length (doors self) \<noteq> length dr_pairs")
          case True
          show ?thesis unfolding set_adjacency_def Let_def match_apertures_eq match_doors_eq
            using True l1 l2 l3 zd[OF True] by (simp add: pa pd split del: if_split)
        next
          case False
          show ?thesis unfolding set_adjacency_def Let_def match_apertures_eq match_doors_eq
            using False l1 l2 l3 by (simp add: pa pd split del: if_split)
        qed
      qed
    qed
  qed
qed






lemma set_adjacency_state_bc:
  "boundary_condition (fst (outcome_state (set_adjacency L tol self other))) = surface other \<and>
   boundary_condition (snd (outcome_state (set_adjacency L tol self other))) = surface self"
proof -
  obtain aps1 aps2 ap_pairs where pa:
    "pair_apertures L tol 0 (apertures self) (apertures other) = (aps1, aps2, ap_pairs)"
    by (cases "pair_apertures L tol 0 (apertures self) (apertures other)") auto
  obtain drs1 drs2 dr_pairs where pd:
    "pair_doors L tol 0 (doors self) (doors other) = (drs1, drs2, dr_pairs)"
    by (cases "pair_doors L tol 0 (doors self) (doors other)") auto
  show ?thesis
    unfolding set_adjacency_unfold[OF pa pd] by simp
qed

lemma set_adjacency_outcome:
  "(all_matched L tol self other \<longrightarrow> (\<exists>info st. set_adjacency L tol self other = Return info st)) \<and>
   (\<not> all_matched L tol self other \<longrightarrow> (\<exists>st. set_adjacency L tol self other = Raise AssertionError st))"
proof -
  obtain aps1 aps2 ap_pairs where pa:
    "pair_apertures L tol 0 (apertures self) (apertures other) = (aps1, aps2, ap_pairs)"
    by (cases "pair_apertures L tol 0 (apertures self) (apertures other)") auto
  obtain drs1 drs2 dr_pairs where pd:
    "pair_doors L tol 0 (doors self) (doors other) = (drs1, drs2, dr_pairs)"
    by (cases "pair_doors L tol 0 (doors self) (doors other)") auto
  note A = pair_apertures_all_iff[OF pa] and D = pair_doors_all_iff[OF pd]
  show ?thesis
    unfolding all_matched_def list_all_iff list_ex_iff A[symmetric] D[symmetric]
      set_adjacency_unfold[OF pa pd]
    by (auto split: if_splits)
qed

lemma distance_to_point_le_iff:
  assumes "0 \<le> t"
  shows "distance_to_point (x1, y1, z1) (x2, y2, z2) \<le> t \<longleftrightarrow>
         (x1 - x2)\<^sup>2 + (y1 - y2)\<^sup>2 + (z1 - z2)\<^sup>2 \<le> t\<^sup>2"
proof
  assume "distance_to_point (x1, y1, z1) (x2, y2, z2) \<le> t"
  then show "(x1 - x2)\<^sup>2 + (y1 - y2)\<^sup>2 + (z1 - z2)\<^sup>2 \<le> t\<^sup>2"
    by (simp add: distance_to_point_def sqrt_le_D)
next
  assume "(x1 - x2)\<^sup>2 + (y1 - y2)\<^sup>2 + (z1 - z2)\<^sup>2 \<le> t\<^sup>2"
  with assms show "distance_to_point (x1, y1, z1) (x2, y2, z2) \<le> t"
    by (simp add: distance_to_point_def real_le_lsqrt)
qed

lemmas example_defs = example_ops_def example_wall_def example_aperture_def example_door_def
  face_init_def new_aperture_def new_door_def rectangle_def shape_center_def shape_min_def
  shape_max_def lowest_def highest_def shape_area_def shape_is_rectangle_def

lemma attached_aperture_example:
  "ap_geometry (attached_aperture example_ops fg a) = ap_geometry a"
  by (simp add: attached_aperture_def example_ops_def Let_def)

section \<open>C9: set_adjacency assigns the boundary conditions before it checks\<close>

text \<open>
  C9. \<open>set_adjacency\<close> is not atomic on error: whenever it raises, whatever the check
  that failed, both Faces are left with the mutual Surface boundary conditions that the
  method assigned before its first check.
\<close>

theorem set_adjacency_raise_keeps_surface:
  assumes "set_adjacency L tol self other = Raise e (s', o')"
  shows "boundary_condition s' = surface other \<and> boundary_condition o' = surface self"
  using set_adjacency_state_bc[of L tol self other] assms by simp

theorem set_adjacency_raise_keeps_surface_witness:
  "set_adjacency example_ops (1 / 100) one_window_wall two_window_wall =
     Raise AssertionError (one_window_wall\<lparr>boundary_condition := Surface [''F2''] False\<rparr>,
                           two_window_wall\<lparr>boundary_condition := Surface [''F1''] False\<rparr>) \<and>
   boundary_condition one_window_wall = Outdoors \<and>
   boundary_condition two_window_wall = Outdoors"
proof -
  have r: "set_adjacency example_ops (1 / 100) one_window_wall two_window_wall =
     Raise AssertionError (one_window_wall\<lparr>boundary_condition := surface two_window_wall\<rparr>,
                           two_window_wall\<lparr>boundary_condition := surface one_window_wall\<rparr>)"
    unfolding set_adjacency_def Let_def
    by (simp add: one_window_wall_def two_window_wall_def split del: if_split)
  have s: "surface two_window_wall = Surface [''F2''] False"
          "surface one_window_wall = Surface [''F1''] False"
    by (simp_all add: surface_def one_window_wall_def two_window_wall_def example_defs)
  from set_adjacency_raise_keeps_surface[OF r] r s show ?thesis
    by (simp add: one_window_wall_def two_window_wall_def example_defs)
qed

section \<open>C2: when set_adjacency succeeds\<close>

text \<open>
  C2, as the code has it. \<open>set_adjacency\<close> returns exactly when the two Faces have equal
  numbers of apertures and of doors and every aperture and door of this Face (the
  receiver) has a sub-face of the same kind on the other Face whose center is within the
  tolerance; it then leaves both Faces with Surface conditions that reference each
  other's identifier. In every other case it raises an AssertionError. The sub-faces of
  the other Face are not checked.
\<close>

theorem set_adjacency_succeeds_iff_receiver_matched:
  "(all_matched L tol self other \<longrightarrow>
      (\<exists>info s' o'. set_adjacency L tol self other = Return info (s', o') \<and>
         boundary_condition s' = surface other \<and> boundary_condition o' = surface self \<and>
         hd (boundary_condition_objects (boundary_condition s')) = face_identifier other \<and>
         hd (boundary_condition_objects (boundary_condition o')) = face_identifier self)) \<and>
   (\<not> all_matched L tol self other \<longrightarrow>
      (\<exists>st. set_adjacency L tol self other = Raise AssertionError st))"
proof (intro conjI impI)
  assume "all_matched L tol self other"
  with set_adjacency_outcome[of L tol self other] obtain info s' o' where
    r: "set_adjacency L tol self other = Return info (s', o')" by (cases) auto
  with set_adjacency_state_bc[of L tol self other]
  have "boundary_condition s' = surface other \<and> boundary_condition o' = surface self" by simp
  with r show "\<exists>info s' o'. set_adjacency L tol self other = Return info (s', o') \<and>
         boundary_condition s' = surface other \<and> boundary_condition o' = surface self \<and>
         hd (boundary_condition_objects (boundary_condition s')) = face_identifier other \<and>
         hd (boundary_condition_objects (boundary_condition o')) = face_identifier self"
    by (simp add: surface_def)
next
  assume "\<not> all_matched L tol self other"
  with set_adjacency_outcome[of L tol self other]
  show "\<exists>st. set_adjacency L tol self other = Raise AssertionError st" by simp
qed

theorem set_adjacency_succeeds_iff_receiver_matched_witness:
  "all_matched example_ops (1 / 100) one_window_wall facing_wall \<and>
   (\<exists>info s' o'. set_adjacency example_ops (1 / 100) one_window_wall facing_wall =
        Return info (s', o') \<and>
      boundary_condition s' = Surface [''F3''] False \<and>
      boundary_condition o' = Surface [''F1''] False) \<and>
   \<not> all_matched example_ops (1 / 100) one_window_wall two_window_wall \<and>
   (\<exists>st. set_adjacency example_ops (1 / 100) one_window_wall two_window_wall =
        Raise AssertionError st)"
proof -
  have m: "all_matched example_ops (1 / 100) one_window_wall facing_wall"
    by (simp add: all_matched_def one_window_wall_def facing_wall_def example_defs
          distance_to_point_def)
  have n: "\<not> all_matched example_ops (1 / 100) one_window_wall two_window_wall"
    by (simp add: all_matched_def one_window_wall_def two_window_wall_def example_defs)
  have s: "surface facing_wall = Surface [''F3''] False"
          "surface one_window_wall = Surface [''F1''] False"
    by (simp_all add: surface_def one_window_wall_def facing_wall_def example_defs)
  from set_adjacency_succeeds_iff_receiver_matched[of example_ops "1 / 100" one_window_wall facing_wall]
       set_adjacency_succeeds_iff_receiver_matched[of example_ops "1 / 100" one_window_wall two_window_wall]
       m n s
  show ?thesis by auto
qed

text \<open>
  The claim as it is written fails: both apertures of \<open>concentric_wall\<close> are within the
  tolerance of the first aperture of \<open>two_window_wall\<close>, whose second aperture is within
  the tolerance of no aperture of \<open>concentric_wall\<close>, and \<open>set_adjacency\<close> returns.
\<close>

theorem set_adjacency_unmatched_counterpart_counterexample:
  "(\<exists>b\<in>set (apertures two_window_wall). \<forall>a\<in>set (apertures concentric_wall).
       \<not> distance_to_point (g_center example_ops (ap_geometry a))
            (g_center example_ops (ap_geometry b)) \<le> 1 / 100) \<and>
   (\<exists>info st. set_adjacency example_ops (1 / 100) concentric_wall two_window_wall = Return info st)"
proof
  have "distance_to_point (2, 0, 2) (13 / 2, 0, 3 / 2) \<le> 1 / 100 \<longleftrightarrow>
        (2 - 13 / 2)\<^sup>2 + (0 - 0)\<^sup>2 + (2 - 3 / 2)\<^sup>2 \<le> ((1 / 100)\<^sup>2 :: real)"
    by (rule distance_to_point_le_iff) simp
  moreover have "\<not> (2 - 13 / 2)\<^sup>2 + (0 - 0)\<^sup>2 + (2 - 3 / 2)\<^sup>2 \<le> ((1 / 100)\<^sup>2 :: real)"
    by (simp add: power2_eq_square)
  ultimately have far: "\<not> distance_to_point (2, 0, 2) (13 / 2, 0, 3 / 2) \<le> 1 / 100"
    by blast
  then show "\<exists>b\<in>set (apertures two_window_wall). \<forall>a\<in>set (apertures concentric_wall).
       \<not> distance_to_point (g_center example_ops (ap_geometry a))
            (g_center example_ops (ap_geometry b)) \<le> 1 / 100"
    by (simp add: concentric_wall_def two_window_wall_def example_defs)
next
  have "all_matched example_ops (1 / 100) concentric_wall two_window_wall"
    by (simp add: all_matched_def concentric_wall_def two_window_wall_def example_defs
          distance_to_point_def)
  with set_adjacency_outcome[of example_ops "1 / 100" concentric_wall two_window_wall]
  show "\<exists>info st. set_adjacency example_ops (1 / 100) concentric_wall two_window_wall = Return info st"
    by simp
qed

section \<open>C10: remove_sub_faces\<close>

lemma remove_sub_faces_effect:
  "remove_sub_faces f =
     (f\<lparr>apertures := [], doors := [], cached_punched_geometry := None\<rparr>,
      map (\<lambda>a. a\<lparr>ap_parent := None\<rparr>) (apertures f), doors f)"
  by (simp add: remove_sub_faces_def remove_apertures_def remove_doors_def)

lemma remove_sub_faces_face [simp]:
  "fst (remove_sub_faces f) = f\<lparr>apertures := [], doors := [], cached_punched_geometry := None\<rparr>"
  by (simp add: remove_sub_faces_effect)

text \<open>
  C10. After \<open>remove_sub_faces\<close> the Face has no apertures and no doors, its cached
  punched geometry is None and the removed Aperture has no parent; the removed Door
  still has the Face as its parent, because the loop of \<open>remove_doors\<close> runs over
  \<open>self._apertures\<close>, which \<open>remove_apertures\<close> has just emptied.
\<close>

theorem remove_sub_faces_door_keeps_parent:
  "(case remove_sub_faces door_wall of
      (f', aps, drs) \<Rightarrow>
        apertures f' = [] \<and> doors f' = [] \<and> cached_punched_geometry f' = None \<and>
        map ap_parent aps = [None] \<and>
        map dr_identifier drs = [''D1''] \<and> map dr_parent drs = [Some ''F1''])"
  by (simp add: remove_sub_faces_effect door_wall_def example_defs)

section \<open>C7: the cached punched geometry\<close>

lemma punched_geometry_recomputed:
  "cached_punched_geometry f = None \<Longrightarrow>
     fst (punched_geometry L f) = compute_punched_geometry L f"
  by (simp add: punched_geometry_def Let_def)

text \<open>
  The operations that the claim names reset the cache: after each of them a read of
  \<open>punched_geometry\<close> computes the geometry from the Face as it is.
\<close>

lemma listed_operations_reset_cache:
  "add_aperture L a f = Return u f' \<Longrightarrow> cached_punched_geometry f' = None"
  "add_door L d f = Return u f' \<Longrightarrow> cached_punched_geometry f' = None"
  "cached_punched_geometry (fst (remove_apertures f)) = None"
  "cached_punched_geometry (fst (remove_doors f)) = None"
  "cached_punched_geometry (fst (remove_sub_faces f)) = None"
  "cached_punched_geometry (move T v f) = None"
  "cached_punched_geometry (rotate T axis angle origin f) = None"
  "cached_punched_geometry (rotate_xy T angle origin f) = None"
  "cached_punched_geometry (reflect T plane f) = None"
  "cached_punched_geometry (scale T factor org f) = None"
  "remove_colinear_vertices L tol f = Return u f' \<Longrightarrow> cached_punched_geometry f' = None"
  by (auto simp: add_aperture_def add_door_def remove_apertures_def remove_doors_def
        move_def rotate_def rotate_xy_def reflect_def scale_def remove_colinear_vertices_def
        Let_def split: option.splits prod.splits)

text \<open>
  C7. The cache can be stale: \<open>remove_degenerate_sub_faces\<close> pops the degenerate
  aperture of \<open>sliver_wall\<close> and leaves \<open>_punched_geometry\<close> as it was, so the next read
  of \<open>punched_geometry\<close> still has the two holes cut before the removal, while the Face
  has one aperture left.
\<close>

theorem remove_degenerate_sub_faces_stale_cache:
  "(case punched_geometry example_ops sliver_wall of
      (g1, f1) \<Rightarrow>
        (case punched_geometry example_ops (remove_degenerate_sub_faces example_ops (1 / 100) f1) of
           (g2, f2) \<Rightarrow>
             map ap_identifier (apertures f2) = [''A1''] \<and>
             length (holes g2) = 2 \<and>
             length (holes (compute_punched_geometry example_ops f2)) = 1 \<and>
             g2 \<noteq> compute_punched_geometry example_ops f2))"
  by (simp add: punched_geometry_def compute_punched_geometry_def remove_degenerate_sub_faces_def
        sliver_wall_def sliver_def example_defs List.map_filter_def Let_def)

section \<open>C1: apertures_by_ratio\<close>

lemma add_aperture_accepted:
  "acceptable_sub_face_check f = None \<Longrightarrow>
     add_aperture L a f =
       Return () (f\<lparr>apertures := apertures f @ [attached_aperture L f a],
                    cached_punched_geometry := None\<rparr>)"
  by (simp add: add_aperture_def attached_aperture_def Let_def)

lemma add_aperture_rejected:
  "acceptable_sub_face_check f = Some e \<Longrightarrow> add_aperture L a f = Raise e f"
  by (simp add: add_aperture_def)

lemma attached_aperture_cong:
  "face_identifier f' = face_identifier f \<Longrightarrow> geometry f' = geometry f \<Longrightarrow>
     attached_aperture L f' a = attached_aperture L f a"
  by (simp add: attached_aperture_def)

lemma acceptable_sub_face_check_cong:
  "boundary_condition f' = boundary_condition f \<Longrightarrow> ftype f' = ftype f \<Longrightarrow>
     acceptable_sub_face_check f' = acceptable_sub_face_check f"
  by (simp add: acceptable_sub_face_check_def)

lemma add_glz_apertures_accepted:
  "acceptable_sub_face_check f = None \<Longrightarrow>
     add_glz_apertures L i gens f =
       Return () (f\<lparr>apertures := apertures f @ glz_apertures L f i gens,
                    cached_punched_geometry :=
                      (if gens = [] then cached_punched_geometry f else None)\<rparr>)"
proof (induction gens arbitrary: i f)
  case Nil
  then show ?case by (simp add: glz_apertures_def)
next
  case (Cons g gens)
  let ?a = "new_aperture (face_identifier f @ ''_Glz'' @ str_nat i) g False"
  let ?f' = "f\<lparr>apertures := apertures f @ [attached_aperture L f ?a],
                    cached_punched_geometry := None\<rparr>"
  have a: "add_aperture L ?a f = Return () ?f'"
    using Cons.prems by (rule add_aperture_accepted)
  have c: "acceptable_sub_face_check ?f' = None"
    using Cons.prems by (simp add: acceptable_sub_face_check_def split: if_splits)
  have g: "glz_apertures L ?f' (Suc i) gens = glz_apertures L f (Suc i) gens"
    by (simp add: glz_apertures_def attached_aperture_def)
  show ?case
    apply (simp only: add_glz_apertures.simps a outcome.case Cons.IH[OF c] g)
    apply (simp add: glz_apertures_def)
    done
qed


lemma glz_apertures_identifiers:
  "map ap_identifier (glz_apertures L f i gens) =
     map (\<lambda>j. face_identifier f @ ''_Glz'' @ str_nat j) [i..<i + length gens]"
proof (induction gens arbitrary: i)
  case Nil
  then show ?case by (simp add: glz_apertures_def)
next
  case (Cons g gens)
  have "[i..<i + length (g # gens)] = i # [Suc i..<Suc i + length gens]"
    by (subst upt_rec) simp
  with Cons.IH[of "Suc i"] show ?case
    by (simp add: glz_apertures_def attached_aperture_def new_aperture_def Let_def)
qed

lemma apertures_by_ratio_generated:
  assumes r: "0 < ratio" "ratio < 1"
      and bc: "boundary_condition f = Outdoors" and ty: "ftype f \<noteq> AirBoundary"
      and geo: "g_remove_colinear_vertices L (geometry f) tolerance = Some geo"
  shows "apertures_by_ratio L G ratio tolerance rect_split f =
     Return () (f\<lparr>apertures :=
                     glz_apertures L f 0
                       (if rect_split then g_sub_faces_by_ratio_rectangle G geo ratio tolerance
                        else g_sub_faces_by_ratio G geo ratio),
                   doors := [], cached_punched_geometry := None\<rparr>)"
proof -
  let ?f1 = "f\<lparr>apertures := [], doors := [], cached_punched_geometry := None\<rparr>"
  have c: "acceptable_sub_face_check f = None" "acceptable_sub_face_check ?f1 = None"
    using bc ty by (simp_all add: acceptable_sub_face_check_def)
  have g: "glz_apertures L ?f1 0 gens = glz_apertures L f 0 gens" for gens
    by (simp add: glz_apertures_def attached_aperture_def)
  show ?thesis
    using r geo
    by (simp add: apertures_by_ratio_def c remove_sub_faces_effect Let_def
          add_glz_apertures_accepted[OF c(2)] g)
qed

lemma apertures_by_ratio_none:
  assumes r: "0 \<le> ratio" "ratio < 1"
      and bc: "boundary_condition f = Outdoors" and ty: "ftype f \<noteq> AirBoundary"
      and z: "ratio = 0 \<or> g_remove_colinear_vertices L (geometry f) tolerance = None"
  shows "apertures_by_ratio L G ratio tolerance rect_split f =
     Return () (f\<lparr>apertures := [], doors := [], cached_punched_geometry := None\<rparr>)"
proof -
  have c: "acceptable_sub_face_check f = None"
    using bc ty by (simp add: acceptable_sub_face_check_def)
  show ?thesis
    using r z by (auto simp: apertures_by_ratio_def c remove_sub_faces_effect Let_def)
qed

lemma apertures_by_ratio_rejected:
  assumes "\<not> (0 \<le> ratio \<and> ratio < 1) \<or> boundary_condition f \<noteq> Outdoors \<or> ftype f = AirBoundary"
  shows "apertures_by_ratio L G ratio tolerance rect_split f = Raise AssertionError f"
  using assms by (auto simp: apertures_by_ratio_def acceptable_sub_face_check_def)

text \<open>
  The sub-faces that the generators of the examples return have the ratio times the area
  of the shape: shrinking a polygon about a vertical axis scales its shoelace sum.
\<close>

lemma shoelace_shrink:
  "ps \<noteq> [] \<Longrightarrow>
     shoelace (map (\<lambda>(x, y, z). (c + r * (x - c), y, z)) ps) =
       r * shoelace ps + (c - r * c) * (snd (snd (last ps)) - snd (snd (hd ps)))"
proof (induction ps rule: shoelace.induct)
  case (1 x1 y1 z1 x2 y2 z2 ps)
  then show ?case by (simp add: algebra_simps)
qed simp_all

lemma shape_area_shrink: "shape_area (shrink r g) = \<bar>r\<bar> * shape_area g"
proof (cases "boundary g = []")
  case True
  then show ?thesis by (simp add: shape_area_def shrink_def split: prod.splits)
next
  case False
  obtain cx cy cz where c: "shape_center g = (cx, cy, cz)" by (cases "shape_center g") auto
  let ?T = "\<lambda>(x, y, z). (cx + r * (x - cx), y, z :: real)"
  have b: "boundary (shrink r g) = map ?T (boundary g)" by (simp add: shrink_def c)
  have "map ?T (boundary g) @ [hd (map ?T (boundary g))] = map ?T (boundary g @ [hd (boundary g)])"
    using False by (simp add: hd_map)
  then have "shoelace (boundary (shrink r g) @ [hd (boundary (shrink r g))]) =
             r * shoelace (boundary g @ [hd (boundary g)])"
    using shoelace_shrink[of "boundary g @ [hd (boundary g)]" cx r] False
    by (simp only: b) simp
  then show ?thesis using False by (simp add: shape_area_def b abs_mult)
qed

lemma apertures_by_ratio_example_area:
  assumes r: "0 < ratio" "ratio < 1"
      and bc: "boundary_condition w = Outdoors" and ty: "ftype w \<noteq> AirBoundary"
      and nd: "shape_area (geometry w) \<noteq> 0"
  shows "\<exists>w'. apertures_by_ratio example_ops example_generators ratio tolerance rect_split w =
                 Return () w' \<and>
               doors w' = [] \<and>
               map ap_identifier (apertures w') = [face_identifier w @ ''_Glz0''] \<and>
               aperture_area example_ops w' = ratio * shape_area (geometry w)"
proof -
  let ?gens = "[shrink ratio (geometry w)]"
  let ?w' = "w\<lparr>apertures := glz_apertures example_ops w 0 ?gens, doors := [],
                cached_punched_geometry := None\<rparr>"
  have geo: "g_remove_colinear_vertices example_ops (geometry w) tolerance = Some (geometry w)"
    using nd by (simp add: example_ops_def)
  have gens: "(if rect_split
               then g_sub_faces_by_ratio_rectangle example_generators (geometry w) ratio tolerance
               else g_sub_faces_by_ratio example_generators (geometry w) ratio) = ?gens"
    by (simp add: example_generators_def)
  have e: "apertures_by_ratio example_ops example_generators ratio tolerance rect_split w =
             Return () ?w'"
    using apertures_by_ratio_generated[OF r bc ty geo, of example_generators rect_split]
    by (simp only: gens)
  have ids: "map ap_identifier (apertures ?w') = [face_identifier w @ ''_Glz0'']"
    using glz_apertures_identifiers[of example_ops w 0 ?gens] by (simp add: str_nat.simps)
  have "aperture_area example_ops ?w' = shape_area (shrink ratio (geometry w))"
    by (simp add: aperture_area_def glz_apertures_def attached_aperture_example new_aperture_def)
       (simp add: example_ops_def)
  then have ar: "aperture_area example_ops ?w' = ratio * shape_area (geometry w)"
    using r by (simp add: shape_area_shrink)
  from e ids ar show ?thesis by (intro exI[of _ ?w']) simp
qed

text \<open>
  C1, with the guard of the code. \<open>apertures_by_ratio\<close> raises and leaves the Face as
  it was when the ratio is outside \<open>[0, 1)\<close>, and also when the boundary condition of the
  Face is not Outdoors or its type is AirBoundary. On an Outdoors Face of another type it
  returns with no doors: with no apertures when the ratio is 0 or the geometry is
  degenerate, and for a ratio in \<open>(0, 1)\<close> with the former apertures and doors removed
  and exactly the new apertures \<open><identifier>_Glz<i>\<close>, one per geometry that the
  generator returns for the cleaned geometry. With the generators of the examples, which
  return a sub-face of the ratio times the area as the spec has it, the combined area of
  the new apertures of every such Face that is not degenerate is the ratio times the area
  of the Face, and so within every tolerance of it.
\<close>

theorem apertures_by_ratio_contract:
  "(\<not> (0 \<le> ratio \<and> ratio < 1) \<or> boundary_condition f \<noteq> Outdoors \<or> ftype f = AirBoundary \<longrightarrow>
      apertures_by_ratio L G ratio tolerance rect_split f = Raise AssertionError f) \<and>
   (0 \<le> ratio \<and> ratio < 1 \<and> boundary_condition f = Outdoors \<and> ftype f \<noteq> AirBoundary \<and>
    (ratio = 0 \<or> g_remove_colinear_vertices L (geometry f) tolerance = None) \<longrightarrow>
      apertures_by_ratio L G ratio tolerance rect_split f =
        Return () (f\<lparr>apertures := [], doors := [], cached_punched_geometry := None\<rparr>)) \<and>
   (0 < ratio \<and> ratio < 1 \<and> boundary_condition f = Outdoors \<and> ftype f \<noteq> AirBoundary \<and>
    g_remove_colinear_vertices L (geometry f) tolerance = Some geo \<longrightarrow>
      apertures_by_ratio L G ratio tolerance rect_split f =
        Return ()
          (f\<lparr>apertures :=
                glz_apertures L f 0
                  (if rect_split then g_sub_faces_by_ratio_rectangle G geo ratio tolerance
                   else g_sub_faces_by_ratio G geo ratio),
              doors := [], cached_punched_geometry := None\<rparr>) \<and>
      map ap_identifier
        (glz_apertures L f 0
           (if rect_split then g_sub_faces_by_ratio_rectangle G geo ratio tolerance
            else g_sub_faces_by_ratio G geo ratio)) =
        map (\<lambda>j. face_identifier f @ ''_Glz'' @ str_nat j)
          [0..<length (if rect_split then g_sub_faces_by_ratio_rectangle G geo ratio tolerance
                       else g_sub_faces_by_ratio G geo ratio)]) \<and>
   (0 < ratio \<and> ratio < 1 \<and> boundary_condition w = Outdoors \<and> ftype w \<noteq> AirBoundary \<and>
    shape_area (geometry w) \<noteq> 0 \<longrightarrow>
      (\<exists>w'. apertures_by_ratio example_ops example_generators ratio tolerance rect_split w =
               Return () w' \<and>
             doors w' = [] \<and>
             map ap_identifier (apertures w') = [face_identifier w @ ''_Glz0''] \<and>
             aperture_area example_ops w' = ratio * g_area example_ops (geometry w)))"
proof -
  have a: "apertures_by_ratio L G ratio tolerance rect_split f = Raise AssertionError f"
    if "\<not> (0 \<le> ratio \<and> ratio < 1) \<or> boundary_condition f \<noteq> Outdoors \<or> ftype f = AirBoundary"
    using that by (rule apertures_by_ratio_rejected)
  have b: "apertures_by_ratio L G ratio tolerance rect_split f =
             Return () (f\<lparr>apertures := [], doors := [], cached_punched_geometry := None\<rparr>)"
    if "0 \<le> ratio \<and> ratio < 1 \<and> boundary_condition f = Outdoors \<and> ftype f \<noteq> AirBoundary \<and>
        (ratio = 0 \<or> g_remove_colinear_vertices L (geometry f) tolerance = None)"
    using that by (intro apertures_by_ratio_none) auto
  have c: "apertures_by_ratio L G ratio tolerance rect_split f =
        Return ()
          (f\<lparr>apertures :=
                glz_apertures L f 0
                  (if rect_split then g_sub_faces_by_ratio_rectangle G geo ratio tolerance
                   else g_sub_faces_by_ratio G geo ratio),
              doors := [], cached_punched_geometry := None\<rparr>)"
    if "0 < ratio \<and> ratio < 1 \<and> boundary_condition f = Outdoors \<and> ftype f \<noteq> AirBoundary \<and>
        g_remove_colinear_vertices L (geometry f) tolerance = Some geo"
    using that by (intro apertures_by_ratio_generated) auto
  have d: "\<exists>w'. apertures_by_ratio example_ops example_generators ratio tolerance rect_split w =
               Return () w' \<and>
             doors w' = [] \<and>
             map ap_identifier (apertures w') = [face_identifier w @ ''_Glz0''] \<and>
             aperture_area example_ops w' = ratio * g_area example_ops (geometry w)"
    if "0 < ratio \<and> ratio < 1 \<and> boundary_condition w = Outdoors \<and> ftype w \<noteq> AirBoundary \<and>
        shape_area (geometry w) \<noteq> 0"
  proof -
    have g: "g_area example_ops (geometry w) = shape_area (geometry w)"
      by (simp add: example_ops_def)
    from that have r: "0 < ratio" "ratio < 1" and bc: "boundary_condition w = Outdoors"
      and ty: "ftype w \<noteq> AirBoundary" and nd: "shape_area (geometry w) \<noteq> 0"
      by simp_all
    show ?thesis unfolding g by (rule apertures_by_ratio_example_area[OF r bc ty nd])
  qed
  show ?thesis
    apply (intro conjI)
       apply (rule impI, erule a)
      apply (rule impI, erule b)
     apply (rule impI, rule conjI, erule c, simp only: glz_apertures_identifiers add_0)
    apply (rule impI, erule d)
    done
qed

theorem apertures_by_ratio_contract_witness:
  "(\<exists>w'. apertures_by_ratio example_ops example_generators (1 / 4) (1 / 100) True one_window_wall =
          Return () w' \<and>
        doors w' = [] \<and> map ap_identifier (apertures w') = [''F1_Glz0''] \<and>
        aperture_area example_ops w' = 15 / 2) \<and>
   g_area example_ops (geometry one_window_wall) = 30 \<and>
   apertures_by_ratio example_ops example_generators 2 (1 / 100) True one_window_wall =
     Raise AssertionError one_window_wall \<and>
   apertures_by_ratio example_ops example_generators 0 (1 / 100) True one_window_wall =
     Return () (example_wall ''F1'') \<and>
   apertures (example_wall ''F1'') = [] \<and> doors (example_wall ''F1'') = []"
proof -
  note t = apertures_by_ratio_contract[where L = example_ops and G = example_generators
             and tolerance = "1 / 100" and rect_split = True and f = one_window_wall
             and w = one_window_wall]
  have o: "boundary_condition one_window_wall = Outdoors" "ftype one_window_wall \<noteq> AirBoundary"
          "face_identifier one_window_wall = ''F1''"
          "g_area example_ops (geometry one_window_wall) = 30"
          "shape_area (geometry one_window_wall) \<noteq> 0"
    by (simp_all add: one_window_wall_def example_defs)
  have hyp: "0 < (1 / 4 :: real) \<and> (1 / 4 :: real) < 1 \<and>
      boundary_condition one_window_wall = Outdoors \<and> ftype one_window_wall \<noteq> AirBoundary \<and>
      shape_area (geometry one_window_wall) \<noteq> 0"
    by (simp add: o)
  from t[where ratio = "1 / 4", THEN conjunct2, THEN conjunct2, THEN conjunct2, THEN mp, OF hyp]
  obtain w' where
    r: "apertures_by_ratio example_ops example_generators (1 / 4) (1 / 100) True one_window_wall =
          Return () w'"
    and d: "doors w' = []"
    and ids: "map ap_identifier (apertures w') = [face_identifier one_window_wall @ ''_Glz0'']"
    and ar: "aperture_area example_ops w' = 1 / 4 * g_area example_ops (geometry one_window_wall)"
    by (elim exE conjE)
  from ids have ids': "map ap_identifier (apertures w') = [''F1_Glz0'']" by (simp add: o)
  from ar have ar': "aperture_area example_ops w' = 15 / 2" by (simp add: o)
  from r d ids' ar'
  have c1: "\<exists>w'. apertures_by_ratio example_ops example_generators (1 / 4) (1 / 100) True
                    one_window_wall = Return () w' \<and>
        doors w' = [] \<and> map ap_identifier (apertures w') = [''F1_Glz0''] \<and>
        aperture_area example_ops w' = 15 / 2"
    by (intro exI[of _ w'] conjI) (simp_all only:)
  have c2: "apertures_by_ratio example_ops example_generators 2 (1 / 100) True one_window_wall =
     Raise AssertionError one_window_wall"
    using t[where ratio = 2, THEN conjunct1] by simp
  have hyp0: "(0 :: real) \<le> 0 \<and> (0 :: real) < 1 \<and> boundary_condition one_window_wall = Outdoors \<and>
      ftype one_window_wall \<noteq> AirBoundary \<and>
      ((0 :: real) = 0 \<or>
       g_remove_colinear_vertices example_ops (geometry one_window_wall) (1 / 100) = None)"
    by (simp add: o)
  have c3: "apertures_by_ratio example_ops example_generators 0 (1 / 100) True one_window_wall =
     Return () (example_wall ''F1'')"
    using t[where ratio = 0, THEN conjunct2, THEN conjunct1, THEN mp, OF hyp0]
    by (simp add: one_window_wall_def example_defs)
  have c4: "apertures (example_wall ''F1'') = [] \<and> doors (example_wall ''F1'') = []"
    by (simp add: example_defs)
  from c1 o(4) c2 c3 c4 show ?thesis by (simp only: simp_thms)
qed

text \<open>
  The claim as it is written fails on a Face that is not Outdoors: \<open>interior_wall\<close>
  has a Surface boundary condition and one aperture; with the ratio 0 the method raises
  and the aperture stays.
\<close>

theorem apertures_by_ratio_surface_face_counterexample:
  "apertures_by_ratio example_ops example_generators 0 (1 / 100) True interior_wall =
     Raise AssertionError interior_wall \<and>
   map ap_identifier (apertures interior_wall) = [''A1''] \<and>
   boundary_condition interior_wall = Surface [''F3''] False"
  by (simp add: apertures_by_ratio_def acceptable_sub_face_check_def interior_wall_def example_defs)

section \<open>C6: rectangularization of rectangular apertures\<close>

lemma sort_apertures_all_rectangular:
  assumes "max_separation = None \<or> \<not> merge_all"
      and "list_all (\<lambda>a. is_rectangular L tolerance angle_tolerance (ap_geometry a)) aps"
  shows "snd (snd (sort_apertures L max_separation merge_all tolerance (radians angle_tolerance) aps)) = []"
  using assms(2)
proof (induction aps)
  case Nil
  then show ?case by simp
next
  case (Cons a aps)
  then show ?case
    using assms(1)
    by (auto simp: is_rectangular_def split: prod.splits option.splits)
qed

lemma rectangularize_apertures_nothing_to_do:
  assumes "max_separation = None \<or> \<not> merge_all"
      and "list_all (\<lambda>a. is_rectangular L tolerance angle_tolerance (ap_geometry a)) (apertures f)"
  shows "rectangularize_apertures L R subdivision_distance max_separation merge_all tolerance
           angle_tolerance f = Return False f"
proof (cases "length (apertures f) = 0")
  case True
  then show ?thesis by (simp add: rectangularize_apertures_def)
next
  case False
  obtain rect_aps non_rect_aps non_rect_geos where
    s: "sort_apertures L max_separation merge_all tolerance (radians angle_tolerance) (apertures f) =
          (rect_aps, non_rect_aps, non_rect_geos)"
    by (cases "sort_apertures L max_separation merge_all tolerance (radians angle_tolerance)
                 (apertures f)") auto
  with sort_apertures_all_rectangular[OF assms] have "non_rect_geos = []" by simp
  with False s show ?thesis
    unfolding rectangularize_apertures_def Let_def by (simp split del: if_split)
qed

text \<open>
  What a call without merging leaves on the Face, for every geometry library: when
  attaching an Aperture keeps a rectangular geometry rectangular, the rectangle test
  agrees with the test on the cleaned geometry, and the bounding rectangles and the
  strips are rectangular, every Aperture of the Face after the call is rectangular,
  whether the call returned or raised.
\<close>

lemma sort_apertures_rect:
  "list_all (\<lambda>a. is_rectangular L tol ang (ap_geometry a))
     (fst (sort_apertures L ms ma tol (radians ang) aps))"
  by (induction aps) (auto simp: is_rectangular_def split: prod.splits option.splits)

lemma sort_apertures_lengths:
  "length (fst (snd (sort_apertures L ms ma tol atol aps))) =
   length (snd (snd (sort_apertures L ms ma tol atol aps)))"
  by (induction aps) (auto split: prod.splits option.splits)

lemma sort_apertures_nothing:
  assumes "ms = None \<or> \<not> ma"
      and "snd (snd (sort_apertures L ms ma tol (radians ang) aps)) = []"
  shows "list_all (\<lambda>a. is_rectangular L tol ang (ap_geometry a)) aps"
  using assms(2)
proof (induction aps)
  case Nil
  then show ?case by simp
next
  case (Cons a aps)
  then show ?case
    using assms(1)
    by (auto simp: is_rectangular_def split: prod.splits option.splits if_splits)
qed

lemma add_apertures_keeps:
  assumes "\<And>a fg. P (ap_geometry a) \<Longrightarrow> P (ap_geometry (attached_aperture L fg a))"
  shows "list_all (\<lambda>a. P (ap_geometry a)) xs \<Longrightarrow> list_all (\<lambda>a. P (ap_geometry a)) (apertures f) \<Longrightarrow>
         list_all (\<lambda>a. P (ap_geometry a)) (apertures (outcome_state (add_apertures L xs f)))"
proof (induction xs arbitrary: f)
  case Nil
  then show ?case by simp
next
  case (Cons x xs)
  show ?case
  proof (cases "acceptable_sub_face_check f")
    case (Some e)
    then show ?thesis using Cons.prems by (simp add: add_aperture_def)
  next
    case None
    have a: "add_aperture L x f =
               Return () (f\<lparr>apertures := apertures f @ [attached_aperture L f x],
                             cached_punched_geometry := None\<rparr>)"
      using None by (simp add: add_aperture_def attached_aperture_def Let_def)
    have "list_all (\<lambda>a. P (ap_geometry a))
            (apertures (f\<lparr>apertures := apertures f @ [attached_aperture L f x],
                           cached_punched_geometry := None\<rparr>))"
      using Cons.prems assms[of x f] by simp
    from Cons.IH[OF _ this] Cons.prems(1) show ?thesis by (simp add: a)
  qed
qed

lemma place_in_groups_members:
  "\<Union> (set ` set (place_in_groups overlaps x grps)) = insert x (\<Union> (set ` set grps))"
  by (induction grps) auto

lemma foldl_place_in_groups_members:
  "\<Union> (set ` set (foldl (\<lambda>groups face. place_in_groups overlaps face groups) grps xs)) =
     set xs \<union> \<Union> (set ` set grps)"
  by (induction xs arbitrary: grps) (auto simp: place_in_groups_members)

lemma group_sub_faces_by_overlap_members:
  assumes "group_sub_faces_by_overlap L R geo sfs tolerance = Some groups"
  shows "\<Union> (set ` set groups) = set sfs"
proof (cases "sort_key (\<lambda>x. - g_area L (geo x)) sfs")
  case Nil
  with assms show ?thesis by (simp add: group_sub_faces_by_overlap_def)
next
  case (Cons first rest)
  have "set sfs = set (sort_key (\<lambda>x. - g_area L (geo x)) sfs)" by simp
  also have "\<dots> = set (first # rest)" by (simp only: Cons)
  finally have s: "set sfs = insert first (set rest)" by simp
  from assms have "groups = foldl (\<lambda>groups face.
                  place_in_groups
                    (\<lambda>a b. g_polygon_relationship R (geo first) (geo a) (geo b) tolerance \<ge> 0)
                    face groups) [[first]] rest"
    by (simp add: group_sub_faces_by_overlap_def Cons)
  then show ?thesis
    by (simp only: foldl_place_in_groups_members s) simp
qed

lemma group_sub_faces_by_overlap_None:
  "group_sub_faces_by_overlap L R geo sfs tolerance = None \<longleftrightarrow> sfs = []"
proof (cases "sort_key (\<lambda>x. - g_area L (geo x)) sfs")
  case Nil
  have "length sfs = length (sort_key (\<lambda>x. - g_area L (geo x)) sfs)" by simp
  also have "\<dots> = 0" by (simp only: Nil list.size)
  finally have "sfs = []" by simp
  then show ?thesis by (simp add: group_sub_faces_by_overlap_def)
next
  case (Cons first rest)
  have "sfs \<noteq> []"
  proof
    assume "sfs = []"
    then have "sort_key (\<lambda>x. - g_area L (geo x)) sfs = []" by simp
    then show False by (simp only: Cons) simp
  qed
  then show ?thesis by (simp add: group_sub_faces_by_overlap_def Cons)
qed

lemma remove_overlapping_sub_faces_subset:
  assumes "remove_overlapping_sub_faces L R geo sfs tolerance = Some kept"
  shows "set kept \<subseteq> set sfs"
proof -
  from assms obtain groups where
    g: "group_sub_faces_by_overlap L R geo sfs tolerance = Some groups" and
    k: "kept = concat (map (\<lambda>grp. take 1 (sort_key (\<lambda>x. - g_area L (geo x)) grp)) groups)"
    by (auto simp: remove_overlapping_sub_faces_def)
  have "set (take 1 (sort_key (\<lambda>x. - g_area L (geo x)) grp)) \<subseteq> set grp" for grp
    using set_take_subset[of 1 "sort_key (\<lambda>x. - g_area L (geo x)) grp"] by simp
  then have "set kept \<subseteq> \<Union> (set ` set groups)" unfolding k by auto
  with group_sub_faces_by_overlap_members[OF g] show ?thesis by simp
qed

lemma remove_overlapping_sub_faces_None:
  "remove_overlapping_sub_faces L R geo sfs tolerance = None \<longleftrightarrow> sfs = []"
  by (simp add: remove_overlapping_sub_faces_def group_sub_faces_by_overlap_None)

lemma match_new_apertures_geometries:
  "map ap_geometry (match_new_apertures L ident tol olds geos) = geos"
  by (rule nth_equalityI)
     (simp_all add: match_new_apertures_def matched_aperture_def new_aperture_def nth_enumerate_eq
        split: option.splits)

lemma list_all_map_geometry:
  "list_all P (map ap_geometry xs) = list_all (\<lambda>a. P (ap_geometry a)) xs"
  by (simp add: list_all_iff)

lemma reset_to_outdoors_rect:
  "list_all (\<lambda>a. P (ap_geometry a)) rect_aps \<Longrightarrow>
   list_all (\<lambda>a. P (ap_geometry a)) (fst (reset_to_outdoors rect_aps f))"
  by (simp add: reset_to_outdoors_def list_all_iff)

lemma strips_of_aperture_rect:
  assumes "\<And>g. g_is_rectangle L g (radians ang) \<Longrightarrow> is_rectangular L tol ang g"
      and "\<And>pl g sd gs. g_rectangular_strips R pl g sd tol = Some gs \<Longrightarrow>
             list_all (is_rectangular L tol ang) gs"
  shows "list_all (\<lambda>a. is_rectangular L tol ang (ap_geometry a))
           (strips_of_aperture L R pl sd tol (radians ang) ap_obj)"
proof (cases "g_is_rectangle L (ap_geometry ap_obj) (radians ang)")
  case True
  with assms(1) show ?thesis by (simp add: strips_of_aperture_def)
next
  case False
  show ?thesis
  proof (cases "g_rectangular_strips R pl (ap_geometry ap_obj) sd tol")
    case None
    with False show ?thesis by (simp add: strips_of_aperture_def)
  next
    case (Some gs)
    with assms(2) have "list_all (is_rectangular L tol ang) gs" by blast
    with False Some show ?thesis
      by (auto simp: strips_of_aperture_def new_aperture_def list_all_iff in_set_enumerate_eq)
  qed
qed

lemma rectangularize_apertures_leaves_rectangles:
  assumes attach: "\<And>a fg. is_rectangular L tol ang (ap_geometry a) \<Longrightarrow>
                     is_rectangular L tol ang (ap_geometry (attached_aperture L fg a))"
      and raw: "\<And>g. g_is_rectangle L g (radians ang) \<Longrightarrow> is_rectangular L tol ang g"
      and bound: "\<And>pl g. is_rectangular L tol ang (g_bounding_rectangle R pl g)"
      and strips: "\<And>pl g sd gs. g_rectangular_strips R pl g sd tol = Some gs \<Longrightarrow>
                     list_all (is_rectangular L tol ang) gs"
  shows "list_all (\<lambda>a. is_rectangular L tol ang (ap_geometry a))
           (apertures (outcome_state (rectangularize_apertures L R sd None False tol ang f)))"
proof -
  let ?Q = "\<lambda>a. is_rectangular L tol ang (ap_geometry a)"
  obtain ra0 na ng0 where
    s: "sort_apertures L None False tol (radians ang) (apertures f) = (ra0, na, ng0)"
    by (cases "sort_apertures L None False tol (radians ang) (apertures f)") auto
  obtain ra f1 where r: "reset_to_outdoors ra0 f = (ra, f1)"
    by (cases "reset_to_outdoors ra0 f") auto
  have qra0: "list_all ?Q ra0" using sort_apertures_rect[of L tol ang None False "apertures f"] s by simp
  have qra: "list_all ?Q ra" using reset_to_outdoors_rect[of "is_rectangular L tol ang" ra0 f] qra0 r by simp
  have len: "length na = length ng0" using sort_apertures_lengths[of L None False tol "radians ang" "apertures f"] s by simp
  have empty: "list_all ?Q (apertures (fst (remove_apertures f1)))" by (simp add: remove_apertures_def)
  show ?thesis
  proof (cases "apertures f = [] \<or> ng0 = []")
    case True
    then have "rectangularize_apertures L R sd None False tol ang f = Return False f"
      using s by (auto simp: rectangularize_apertures_def Let_def)
    moreover have "list_all ?Q (apertures f)"
      using True sort_apertures_nothing[of None False L tol ang "apertures f"] s by auto
    ultimately show ?thesis by simp
  next
    case False
    show ?thesis
    proof (cases sd)
      case None
      let ?pl = "g_reference_plane R (geometry f1) (radians ang)"
      let ?geos = "map (\<lambda>ap_geo. if g_is_rectangle L ap_geo (radians ang) then ap_geo
                                   else g_bounding_rectangle R ?pl ap_geo) ng0"
      let ?new = "match_new_apertures L (face_identifier f1) tol na ?geos"
      have "list_all (is_rectangular L tol ang) ?geos"
        using raw bound by (auto simp: list_all_iff)
      then have "list_all (is_rectangular L tol ang) (map ap_geometry ?new)"
        by (simp only: match_new_apertures_geometries)
      then have qnew: "list_all ?Q ?new"
        by (simp only: list_all_map_geometry)
      show ?thesis
      proof (cases "remove_overlapping_sub_faces L R ap_geometry (ra @ ?new) tol")
        case None
        then have "ra @ ?new = []" by (simp only: remove_overlapping_sub_faces_None)
        then have "length ?new = 0" by simp
        then have "ng0 = []" by (simp add: match_new_apertures_def)
        with False show ?thesis by simp
      next
        case (Some all_aps)
        have "set all_aps \<subseteq> set (ra @ ?new)" by (rule remove_overlapping_sub_faces_subset[OF Some])
        with qra qnew have "list_all ?Q all_aps" by (auto simp: list_all_iff)
        from add_apertures_keeps[of "is_rectangular L tol ang" L all_aps "fst (remove_apertures f1)",
              OF attach this empty]
        have "list_all ?Q (apertures (outcome_state
                (add_apertures L all_aps (fst (remove_apertures f1)))))" .
        moreover have "outcome_state (rectangularize_apertures L R sd None False tol ang f) =
                       outcome_state (add_apertures L all_aps (fst (remove_apertures f1)))"
          using False s r None Some
          unfolding rectangularize_apertures_def Let_def merge_non_rect_geos_def
          by (simp split: outcome.splits split del: if_split)
        ultimately show ?thesis by simp
      qed
    next
      case (Some d)
      let ?pl = "g_reference_plane R (geometry f1) (radians ang)"
      let ?strips = "concat (map (strips_of_aperture L R ?pl d tol (radians ang)) na)"
      have "list_all ?Q ?strips"
        using strips_of_aperture_rect[of L ang tol R, OF raw strips]
        by (auto simp: list_all_iff)
      with qra have "list_all ?Q (ra @ ?strips)" by simp
      from add_apertures_keeps[of "is_rectangular L tol ang" L "ra @ ?strips"
             "fst (remove_apertures f1)", OF attach this empty]
      have "list_all ?Q (apertures (outcome_state
              (add_apertures L (ra @ ?strips) (fst (remove_apertures f1)))))" .
      moreover have "outcome_state (rectangularize_apertures L R sd None False tol ang f) =
                     outcome_state (add_apertures L (ra @ ?strips) (fst (remove_apertures f1)))"
        using False s r Some
        unfolding rectangularize_apertures_def Let_def merge_non_rect_geos_def
        by (simp split: outcome.splits split del: if_split)
      ultimately show ?thesis by simp
    qed
  qed
qed


text \<open>The geometry library of the examples meets the four conditions.\<close>

lemma rectangle_is_rectangle: "shape_is_rectangle (rectangle x z w h)"
  by (simp add: shape_is_rectangle_def rectangle_def shape_min_def shape_max_def lowest_def
      highest_def shape_area_def min_def max_def abs_if algebra_simps
      mult_less_0_iff zero_less_mult_iff not_less)

lemma is_rectangular_example:
  "is_rectangular example_ops tol ang g = (shape_area g = 0 \<or> shape_is_rectangle g)"
  by (simp add: is_rectangular_def example_ops_def)

lemma row_strips_rectangles:
  "row_strips g sd = Some gs \<Longrightarrow> list_all shape_is_rectangle gs"
  by (auto simp: row_strips_def list_all_iff rectangle_is_rectangle
      split: prod.splits if_splits)

lemma rectangularize_apertures_example_rectangles:
  "list_all (\<lambda>a. is_rectangular example_ops tol ang (ap_geometry a))
     (apertures (outcome_state
        (rectangularize_apertures example_ops subdividing_rectangularize_ops sd None False
           tol ang w)))"
proof (rule rectangularize_apertures_leaves_rectangles)
  show "is_rectangular example_ops tol ang (ap_geometry (attached_aperture example_ops fg a))"
    if "is_rectangular example_ops tol ang (ap_geometry a)" for a :: "shape aperture" and fg
    using that by (simp only: attached_aperture_example)
  show "is_rectangular example_ops tol ang g" if "g_is_rectangle example_ops g (radians ang)" for g
  proof -
    from that have "shape_is_rectangle g" by (simp add: example_ops_def)
    then show ?thesis by (simp only: is_rectangular_example) simp
  qed
  show "is_rectangular example_ops tol ang
          (g_bounding_rectangle subdividing_rectangularize_ops pl g)" for pl g
    by (simp add: is_rectangular_example subdividing_rectangularize_ops_def
        example_rectangularize_ops_def rectangle_is_rectangle split: prod.splits)
  show "list_all (is_rectangular example_ops tol ang) gs"
    if "g_rectangular_strips subdividing_rectangularize_ops pl g sd tol = Some gs" for pl g sd gs
    using that row_strips_rectangles[of g sd gs]
    by (simp add: subdividing_rectangularize_ops_def example_rectangularize_ops_def
        is_rectangular_example list_all_iff)
qed

text \<open>
  C6. On a Face whose apertures are all rectangular within the angle tolerance (or
  degenerate, which the method ignores), \<open>rectangularize_apertures\<close> without merging
  (no \<open>max_separation\<close>, or \<open>merge_all\<close> False) returns False and leaves the Face as
  it is, whatever the subdivision distance. And a second application reports no change
  after any first one: with the bounding rectangles and the strips of the geometry library
  of the examples, whatever Face the first application with the default merge settings
  was given, whatever its subdivision distance and tolerances, and whether it returned or
  raised, an application with the default merge settings to the Face it left returns
  False and leaves that Face as it is.
\<close>

theorem rectangularize_apertures_idempotent:
  "((max_separation = None \<or> \<not> merge_all) \<and>
    list_all (\<lambda>a. is_rectangular L tolerance angle_tolerance (ap_geometry a)) (apertures f) \<longrightarrow>
      rectangularize_apertures L R subdivision_distance max_separation merge_all tolerance
        angle_tolerance f = Return False f) \<and>
   rectangularize_apertures example_ops subdividing_rectangularize_ops sd_again None False tol_again ang_again
     (outcome_state
        (rectangularize_apertures example_ops subdividing_rectangularize_ops sd None False
           tol ang w)) =
   Return False
     (outcome_state
        (rectangularize_apertures example_ops subdividing_rectangularize_ops sd None False
           tol ang w))"
proof -
  let ?s = "outcome_state
              (rectangularize_apertures example_ops subdividing_rectangularize_ops sd None False
                 tol ang w)"
  have "list_all (\<lambda>a. is_rectangular example_ops tol ang (ap_geometry a)) (apertures ?s)"
    by (rule rectangularize_apertures_example_rectangles)
  then have "list_all (\<lambda>a. is_rectangular example_ops tol_again ang_again (ap_geometry a)) (apertures ?s)"
    by (simp only: is_rectangular_example)
  then have "rectangularize_apertures example_ops subdividing_rectangularize_ops sd_again None False
               tol_again ang_again ?s = Return False ?s"
    by (rule rectangularize_apertures_nothing_to_do[OF disjI1[OF refl]])
  then show ?thesis
    using rectangularize_apertures_nothing_to_do[of max_separation merge_all L tolerance
            angle_tolerance f R subdivision_distance]
    by blast
qed

theorem rectangularize_apertures_idempotent_witness:
  "list_all (\<lambda>a. is_rectangular example_ops (1 / 100) 1 (ap_geometry a)) (apertures two_window_wall) \<and>
   rectangularize_apertures example_ops subdividing_rectangularize_ops None None False (1 / 100) 1
     two_window_wall = Return False two_window_wall \<and>
   returned (rectangularize_apertures example_ops subdividing_rectangularize_ops None None False
               (1 / 100) 1 triangle_wall) \<and>
   map ap_geometry
     (apertures (outcome_state
        (rectangularize_apertures example_ops subdividing_rectangularize_ops None None False
           (1 / 100) 1 triangle_wall))) =
     [rectangle 0 0 2 1, rectangle (1 / 10) (1 / 10) 2 1] \<and>
   rectangularize_apertures example_ops subdividing_rectangularize_ops None None False (1 / 100) 1
     (outcome_state
        (rectangularize_apertures example_ops subdividing_rectangularize_ops None None False
           (1 / 100) 1 triangle_wall)) =
   Return False
     (outcome_state
        (rectangularize_apertures example_ops subdividing_rectangularize_ops None None False
           (1 / 100) 1 triangle_wall))"
proof -
  note t = rectangularize_apertures_idempotent[where L = example_ops
             and R = subdividing_rectangularize_ops and max_separation = None
             and merge_all = False and tolerance = "1 / 100" and angle_tolerance = 1
             and subdivision_distance = None and f = two_window_wall
             and sd = None and sd_again = None and tol = "1 / 100" and tol_again = "1 / 100"
             and ang = 1 and ang_again = 1 and w = triangle_wall]
  have h: "list_all (\<lambda>a. is_rectangular example_ops (1 / 100) 1 (ap_geometry a))
             (apertures two_window_wall)"
    by (simp add: is_rectangular_def two_window_wall_def example_defs)
  have r: "returned (rectangularize_apertures example_ops subdividing_rectangularize_ops None None
                       False (1 / 100) 1 triangle_wall) \<and>
           map ap_geometry
             (apertures (outcome_state
                (rectangularize_apertures example_ops subdividing_rectangularize_ops None None
                   False (1 / 100) 1 triangle_wall))) =
             [rectangle 0 0 2 1, rectangle (1 / 10) (1 / 10) 2 1]"
    by (simp add: rectangularize_apertures_def Let_def triangle_wall_def example_defs
        subdividing_rectangularize_ops_def example_rectangularize_ops_def
        reset_to_outdoors_def merge_non_rect_geos_def List.map_filter_def
        match_new_apertures_def matched_aperture_def is_equivalent_def enumerate_eq_zip
        remove_overlapping_sub_faces_def group_sub_faces_by_overlap_def remove_apertures_def
        add_aperture_def acceptable_sub_face_check_def str_nat.simps
        split del: if_split)
  from t h r show ?thesis by simp
qed

section \<open>C3: matching regenerated geometries with the original apertures\<close>









section \<open>C5: when fix_invalid_sub_faces rebuilds the sub-faces\<close>










end
